theory Spec2Isabelle
  imports Main
begin

section \<open>JavaScript values\<close>

text \<open>
  The handlers of \<^verbatim>\<open>index.js\<close> work on JSON request bodies, Firestore documents and
  HTTP responses. All of them are values of one datatype. A JavaScript string is a list of
  its code units; the model covers code units below 256, so a \<^typ>\<open>char\<close> is one code
  unit. \<open>Num n\<close> is the number whose value is the integer \<open>n\<close>. It is a number of
  JavaScript when \<open>n\<close> is a double, as every integer below \<open>2^53\<close> in absolute value is;
  \<^verbatim>\<open>parseInt\<close> returns no other, and the text of any other is the text of the double
  nearest to it, which is what a number literal of these digits denotes. \<open>Infinity\<close>,
  \<open>MinusInfinity\<close> and \<open>NaN\<close> are the numbers of these names. Numbers with a fraction
  are not modelled.
  \<open>ServerTimestamp\<close> is the sentinel object returned by
  \<^verbatim>\<open>admin.firestore.FieldValue.serverTimestamp()\<close>.
  An object is the list of its own properties; the first entry of a key is the property.
\<close>

datatype jv =
    Undefined
  | Null
  | Bool bool
  | Num int
  | Infinity
  | MinusInfinity
  | NaN
  | Str string
  | Arr "jv list"
  | Obj "(string \<times> jv) list"
  | ServerTimestamp

text \<open>Truthiness, as \<^verbatim>\<open>!x\<close>, \<^verbatim>\<open>x && y\<close>, \<^verbatim>\<open>x || y\<close> and \<^verbatim>\<open>x ? a : b\<close> test it.\<close>

fun truthy :: "jv \<Rightarrow> bool" where
  "truthy Undefined = False"
| "truthy Null = False"
| "truthy (Bool b) = b"
| "truthy (Num n) = (n \<noteq> 0)"
| "truthy Infinity = True"
| "truthy MinusInfinity = True"
| "truthy NaN = False"
| "truthy (Str s) = (s \<noteq> [])"
| "truthy (Arr xs) = True"
| "truthy (Obj kvs) = True"
| "truthy ServerTimestamp = True"

text \<open>\<^verbatim>\<open>a || b\<close>\<close>

definition js_or :: "jv \<Rightarrow> jv \<Rightarrow> jv" where
  "js_or a b = (if truthy a then a else b)"

text \<open>
  \<^verbatim>\<open>v.k\<close> for a value \<open>v\<close> that is neither \<^verbatim>\<open>null\<close> nor \<^verbatim>\<open>undefined\<close> (every
  property read of the source is guarded so) and a key \<open>k\<close> that is not a property of a
  prototype (none of the keys read by the source is).
\<close>

fun js_get :: "jv \<Rightarrow> string \<Rightarrow> jv" where
  "js_get (Obj kvs) k = (case map_of kvs k of Some v \<Rightarrow> v | None \<Rightarrow> Undefined)"
| "js_get v k = Undefined"

text \<open>\<^verbatim>\<open>Object.keys(v).length\<close> for a value that is neither null nor undefined.\<close>

fun keys_length :: "jv \<Rightarrow> nat" where
  "keys_length (Obj kvs) = length (remdups (map fst kvs))"
| "keys_length (Arr xs) = length xs"
| "keys_length (Str s) = length s"
| "keys_length v = 0"

subsection \<open>Numbers to text\<close>

definition digit_char :: "nat \<Rightarrow> char" where
  "digit_char n = ''0123456789'' ! (n mod 10)"

fun show_nat :: "nat \<Rightarrow> string" where
  "show_nat n = (if n < 10 then [digit_char n] else show_nat (n div 10) @ [digit_char (n mod 10)])"

declare show_nat.simps [simp del]

text \<open>
  The same digits with the test as an argument, so that evaluation unfolds the recursion
  only once the test is decided (see \<open>show_nat_code\<close>).
\<close>

function show_nat_if :: "bool \<Rightarrow> nat \<Rightarrow> string" where
  "show_nat_if True n = [digit_char n]"
| "show_nat_if False n = show_nat_if (n div 10 < 10) (n div 10) @ [digit_char (n mod 10)]"
  by pat_completeness auto
termination
  by (relation "measure (\<lambda>(b, n). 2 * n + (if b then 0 else 1))") auto

definition show_int :: "int \<Rightarrow> string" where
  "show_int i = (if i < 0 then CHR ''-'' # show_nat (nat (- i)) else show_nat (nat i))"

subsection \<open>Doubles\<close>

text \<open>
  The double nearest to a natural number, ties to the even mantissa; \<open>None\<close> when the
  number rounds beyond the largest double, to \<^verbatim>\<open>Infinity\<close>. Below \<open>2^53\<close> every
  natural number is a double.
\<close>

fun bit_length :: "nat \<Rightarrow> nat" where
  "bit_length n = (if n = 0 then 0 else Suc (bit_length (n div 2)))"

declare bit_length.simps [simp del]

definition round_big :: "nat \<Rightarrow> nat option" where
  "round_big n =
     (let e = bit_length n - 53;
          q = n div 2 ^ e;
          r = n mod 2 ^ e;
          q' = (if 2 ^ e < 2 * r \<or> (2 * r = 2 ^ e \<and> odd q) then q + 1 else q)
      in if 2 ^ 1024 \<le> q' * 2 ^ e then None else Some (q' * 2 ^ e))"

fun round_if :: "bool \<Rightarrow> nat \<Rightarrow> nat option" where
  "round_if True n = Some n"
| "round_if False n = round_big n"

definition round_to_double :: "nat \<Rightarrow> nat option" where
  "round_to_double n = round_if (int n < 9007199254740992) n"

text \<open>
  The text of a double \<open>x\<close> from \<open>2^53\<close> on, as \<^verbatim>\<open>Number.prototype.toString\<close> prints
  it: the decimal number of the fewest significant digits that rounds to \<open>x\<close> (the one
  closest to \<open>x\<close>, the even one of two), written in full up to 21 digits and with an
  exponent beyond. \<open>candidate x p\<close> looks among the multiples of the power of ten \<open>p\<close>;
  \<open>digits_text\<close> writes the digits found.
\<close>

definition candidate :: "nat \<Rightarrow> nat \<Rightarrow> nat option" where
  "candidate x p =
     (let lo = (x div p) * p;
          hi = lo + p;
          lo_ok = (round_to_double lo = Some x);
          hi_ok = (round_to_double hi = Some x)
      in if lo_ok \<and> hi_ok
         then (if x - lo < hi - x then Some lo
               else if hi - x < x - lo then Some hi
               else if even (lo div p) then Some lo else Some hi)
         else if lo_ok then Some lo
         else if hi_ok then Some hi
         else None)"

fun shortest :: "nat \<Rightarrow> nat list \<Rightarrow> nat" where
  "shortest x [] = x"
| "shortest x (p # ps) = (case candidate x p of Some c \<Rightarrow> c | None \<Rightarrow> shortest x ps)"

definition scales :: "nat \<Rightarrow> nat list" where
  "scales x = map (\<lambda>i. 10 ^ i) (rev [0 ..< length (show_nat x)])"

definition digits_text :: "string \<Rightarrow> string" where
  "digits_text ds =
     (let n = length ds
      in if n \<le> 21 then ds
         else
           let sig = rev (dropWhile (\<lambda>d. d = CHR ''0'') (rev ds))
           in take 1 sig @ (if drop 1 sig = [] then [] else CHR ''.'' # drop 1 sig)
                @ ''e+'' @ show_nat (n - 1))"

definition double_text :: "nat \<Rightarrow> string" where
  "double_text x = digits_text (show_nat (shortest x (scales x)))"

definition number_text :: "nat \<Rightarrow> string" where
  "number_text m = (case round_to_double m of None \<Rightarrow> ''Infinity'' | Some x \<Rightarrow> double_text x)"

text \<open>The text of \<open>Num n\<close>; the first argument tells whether \<open>n\<close> is below \<open>2^53\<close>.\<close>

fun num_text :: "bool \<Rightarrow> int \<Rightarrow> string" where
  "num_text True n = show_int n"
| "num_text False n =
     (if n < 0 then CHR ''-'' # number_text (nat (- n)) else number_text (nat n))"

text \<open>
  The number that a sign and a natural number denote, as \<^verbatim>\<open>parseInt\<close> returns it; the
  first argument tells whether the natural number is below \<open>2^53\<close>.
\<close>

fun to_number :: "bool \<Rightarrow> bool \<Rightarrow> int \<Rightarrow> jv" where
  "to_number True neg m = Num (if neg then - m else m)"
| "to_number False neg m =
     (case round_to_double (nat m) of
        None \<Rightarrow> (if neg then MinusInfinity else Infinity)
      | Some x \<Rightarrow> Num (if neg then - int x else int x))"

fun join_comma :: "string list \<Rightarrow> string" where
  "join_comma [] = []"
| "join_comma [s] = s"
| "join_comma (s # t # ss) = s @ CHR '','' # join_comma (t # ss)"

text \<open>
  The text of a value: \<^verbatim>\<open>String(v)\<close>, \<^verbatim>\<open>`${v}`\<close>, \<^verbatim>\<open>'' + v\<close> and, away from null
  and undefined, \<^verbatim>\<open>v.toString()\<close>. Objects are plain (they do not shadow \<^verbatim>\<open>toString\<close>).
\<close>

fun toString :: "jv \<Rightarrow> string" where
  "toString Undefined = ''undefined''"
| "toString Null = ''null''"
| "toString (Bool b) = (if b then ''true'' else ''false'')"
| "toString (Num n) = num_text (\<bar>n\<bar> < 9007199254740992) n"
| "toString Infinity = ''Infinity''"
| "toString MinusInfinity = ''-Infinity''"
| "toString NaN = ''NaN''"
| "toString (Str s) = s"
| "toString (Arr xs) =
     join_comma (map (\<lambda>x. if x = Null \<or> x = Undefined then [] else toString x) xs)"
| "toString (Obj kvs) = ''[object Object]''"
| "toString ServerTimestamp = ''[object Object]''"

subsection \<open>Strings\<close>

text \<open>White space and line terminators below code unit 256, as \<^verbatim>\<open>trim\<close> and \<^verbatim>\<open>parseInt\<close> skip them.\<close>

definition is_space :: "char \<Rightarrow> bool" where
  "is_space c = (of_char c \<in> {9, 10, 11, 12, 13, 32, 160 :: nat})"

text \<open>\<^verbatim>\<open>\d\<close>\<close>

definition is_digit :: "char \<Rightarrow> bool" where
  "is_digit c = (48 \<le> (of_char c :: nat) \<and> (of_char c :: nat) \<le> 57)"

definition trim :: "string \<Rightarrow> string" where
  "trim s = rev (dropWhile is_space (rev (dropWhile is_space s)))"

fun startsWith :: "string \<Rightarrow> string \<Rightarrow> bool" where
  "startsWith s [] = True"
| "startsWith [] (p # ps) = False"
| "startsWith (c # cs) (p # ps) = (c = p \<and> startsWith cs ps)"

text \<open>\<^verbatim>\<open>s.includes(p)\<close>\<close>

fun str_includes :: "string \<Rightarrow> string \<Rightarrow> bool" where
  "str_includes [] p = (p = [])"
| "str_includes (c # cs) p = (startsWith (c # cs) p \<or> str_includes cs p)"

text \<open>\<^verbatim>\<open>s.replace(p, r)\<close> for a string pattern: the first occurrence only; \<open>r\<close> has no \<^verbatim>\<open>$\<close>.\<close>

fun replace :: "string \<Rightarrow> string \<Rightarrow> string \<Rightarrow> string" where
  "replace [] p r = (if p = [] then r else [])"
| "replace (c # cs) p r =
     (if startsWith (c # cs) p then r @ drop (length p) (c # cs) else c # replace cs p r)"

definition padStart :: "nat \<Rightarrow> char \<Rightarrow> string \<Rightarrow> string" where
  "padStart n c s = replicate (n - length s) c @ s"

text \<open>
  \<^verbatim>\<open>parseInt(s, 10)\<close>: leading white space skipped, an optional sign, then the longest run
  of decimal digits, \<^verbatim>\<open>NaN\<close> when there is none. The result is the double nearest to
  the integer that the digits denote: the integer itself below \<open>2^53\<close>, an infinity for
  a run of digits beyond the doubles. (ECMAScript lets an implementation read the digits
  after the 20th as zeros; the model rounds the integer of all the digits, as V8 does.)
\<close>

definition digit_val :: "char \<Rightarrow> int" where
  "digit_val c = of_char c - 48"

definition digits_val :: "string \<Rightarrow> int" where
  "digits_val ds = foldl (\<lambda>acc c. 10 * acc + digit_val c) 0 ds"

definition parseInt :: "string \<Rightarrow> jv" where
  "parseInt inputString =
     (let s = dropWhile is_space inputString;
          neg = (s \<noteq> [] \<and> hd s = CHR ''-'');
          s1 = (if s \<noteq> [] \<and> (hd s = CHR ''+'' \<or> hd s = CHR ''-'') then tl s else s);
          z = takeWhile is_digit s1
      in if z = [] then NaN
         else to_number (digits_val z < 9007199254740992) neg (digits_val z))"

subsection \<open>Errors\<close>

text \<open>A thrown error object: its \<^verbatim>\<open>name\<close> and its \<^verbatim>\<open>message\<close>.\<close>

datatype error = Err string string

abbreviation Error :: "string \<Rightarrow> error" where
  "Error m \<equiv> Err ''Error'' m"

abbreviation TypeError :: "string \<Rightarrow> error" where
  "TypeError m \<equiv> Err ''TypeError'' m"

fun message :: "error \<Rightarrow> string" where
  "message (Err n m) = m"

text \<open>\<^verbatim>\<open>err && err.message ? err.message : String(err)\<close>\<close>

fun details_of :: "error \<Rightarrow> string" where
  "details_of (Err n m) = (if m \<noteq> [] then m else n)"

section \<open>Helpers\<close>

subsection \<open>normalizePhoneForDaraja\<close>

text \<open>The three regular expressions of \<^verbatim>\<open>normalizePhoneForDaraja\<close>, anchored at both ends.\<close>

definition re_0_7_d8 :: "string \<Rightarrow> bool" where
  "re_0_7_d8 s = (case s of
       c0 # c1 # ds \<Rightarrow> c0 = CHR ''0'' \<and> c1 = CHR ''7'' \<and> length ds = 8 \<and> list_all is_digit ds
     | _ \<Rightarrow> False)"

definition re_7_d8 :: "string \<Rightarrow> bool" where
  "re_7_d8 s = (case s of
       c0 # ds \<Rightarrow> c0 = CHR ''7'' \<and> length ds = 8 \<and> list_all is_digit ds
     | _ \<Rightarrow> False)"

definition re_254_7_d8 :: "string \<Rightarrow> bool" where
  "re_254_7_d8 s = (case s of
       c0 # c1 # c2 # c3 # ds \<Rightarrow>
         c0 = CHR ''2'' \<and> c1 = CHR ''5'' \<and> c2 = CHR ''4'' \<and> c3 = CHR ''7''
         \<and> length ds = 8 \<and> list_all is_digit ds
     | _ \<Rightarrow> False)"

definition normalizePhoneForDaraja :: "jv \<Rightarrow> error + string" where
  "normalizePhoneForDaraja raw =
     (let s0 = trim (toString (js_or raw (Str [])))
      in if s0 = [] then Inl (Error ''Phone is empty'')
         else
           let s = (if startsWith s0 ''+'' then drop 1 s0 else s0);
               s = filter is_digit s
           in if re_0_7_d8 s then Inr (''254'' @ drop 1 s)
              else if re_7_d8 s then Inr (''254'' @ s)
              else if re_254_7_d8 s then Inr s
              else Inl (Error (''Unsupported phone format: '' @ toString raw)))"

subsection \<open>utcTimestamp\<close>

text \<open>The UTC fields of \<^verbatim>\<open>new Date()\<close>, as its getters return them (the month from 0).\<close>

record utc =
  getUTCFullYear :: nat
  getUTCMonth :: nat
  getUTCDate :: nat
  getUTCHours :: nat
  getUTCMinutes :: nat
  getUTCSeconds :: nat

definition utcTimestamp :: "utc \<Rightarrow> string" where
  "utcTimestamp now =
     (let yyyy = padStart 4 CHR ''0'' (show_nat (getUTCFullYear now));
          mm = padStart 2 CHR ''0'' (show_nat (getUTCMonth now + 1));
          dd = padStart 2 CHR ''0'' (show_nat (getUTCDate now));
          hh = padStart 2 CHR ''0'' (show_nat (getUTCHours now));
          min = padStart 2 CHR ''0'' (show_nat (getUTCMinutes now));
          ss = padStart 2 CHR ''0'' (show_nat (getUTCSeconds now))
      in yyyy @ mm @ dd @ hh @ min @ ss)"

subsection \<open>makePassword\<close>

text \<open>
  \<^verbatim>\<open>Buffer.from(s)\<close> is the UTF-8 encoding of \<open>s\<close>: one byte for a code unit below
  128, two bytes for one from 128 to 255. Bytes are naturals below 256.
\<close>

definition utf8_char :: "char \<Rightarrow> nat list" where
  "utf8_char c =
     (if (of_char c :: nat) < 128 then [of_char c]
      else [192 + of_char c div 64, 128 + of_char c mod 64])"

definition utf8 :: "string \<Rightarrow> nat list" where
  "utf8 s = concat (map utf8_char s)"

text \<open>\<^verbatim>\<open>buf.toString('base64')\<close>: the standard alphabet, padded with \<^verbatim>\<open>=\<close>.\<close>

definition b64_alphabet :: string where
  "b64_alphabet = ''ABCDEFGHIJKLMNOPQRSTUVWXYZabcdefghijklmnopqrstuvwxyz0123456789+/''"

definition b64_char :: "nat \<Rightarrow> char" where
  "b64_char n = b64_alphabet ! (n mod 64)"

fun base64 :: "nat list \<Rightarrow> string" where
  "base64 [] = []"
| "base64 [a] = [b64_char (a div 4), b64_char ((a mod 4) * 16), CHR ''='', CHR ''='']"
| "base64 [a, b] =
     [b64_char (a div 4), b64_char ((a mod 4) * 16 + b div 16), b64_char ((b mod 16) * 4),
      CHR ''='']"
| "base64 (a # b # c # rest) =
     b64_char (a div 4) # b64_char ((a mod 4) * 16 + b div 16)
       # b64_char ((b mod 16) * 4 + c div 64) # b64_char (c mod 64) # base64 rest"

text \<open>The arguments are strings: \<^verbatim>\<open>+\<close> is concatenation.\<close>

definition makePassword :: "string \<Rightarrow> string \<Rightarrow> string \<Rightarrow> string" where
  "makePassword paybill' passkey' timestamp =
     (let raw = paybill' @ passkey' @ timestamp in base64 (utf8 raw))"

section \<open>The world outside the process\<close>

text \<open>
  A credential bundle, as \<^verbatim>\<open>getDarajaConfig\<close> returns it.
\<close>

record config =
  consumerKey :: jv
  consumerSecret :: jv
  passkey :: jv
  paybill :: jv
  oauthurl :: jv
  stkurl :: jv
  callbackurl :: jv

text \<open>
  Everything a handler reads from outside is a field of the world: the environment, what
  the document store and the gateway answer, the clock and the identifier that
  \<^verbatim>\<open>.doc()\<close> generates. A rejected promise is an \<^typ>\<open>error\<close>. An HTTP answer is its
  status and its parsed body (\<^verbatim>\<open>validateStatus: () => true\<close>: every status resolves).
  \<^verbatim>\<open>JSON.stringify\<close> is left open; its text only appears in an error message.
\<close>

record world =
  env :: "string \<Rightarrow> string option"
  config_doc :: "error + jv option"
  oauth_get :: "jv \<Rightarrow> string \<Rightarrow> error + (int \<times> jv)"
  stk_post :: "jv \<Rightarrow> jv \<Rightarrow> string \<Rightarrow> error + (int \<times> jv)"
  clock :: utc
  auto_id :: string
  pending_set_error :: "error option"
  pending_update_error :: "error option"
  pending_query_error :: "error option"
  result_set_error :: "error option"
  JSON_stringify :: "jv \<Rightarrow> string"

text \<open>
  The two collections. A document is the list of its fields. The order of
  \<open>payments_pending\<close> is the order in which a query returns its matches.
\<close>

type_synonym doc = "(string \<times> jv) list"

record store =
  payments_pending :: "(string \<times> doc) list"
  payments_results :: "(jv \<times> doc) list"

text \<open>\<^verbatim>\<open>ref.set(d)\<close> replaces the document; \<^verbatim>\<open>ref.update(fs)\<close> overwrites the fields \<open>fs\<close>.\<close>

fun doc_set :: "'k \<Rightarrow> doc \<Rightarrow> ('k \<times> doc) list \<Rightarrow> ('k \<times> doc) list" where
  "doc_set k d [] = [(k, d)]"
| "doc_set k d ((k', d') # rest) = (if k' = k then (k, d) # rest else (k', d') # doc_set k d rest)"

definition merge_fields :: "doc \<Rightarrow> doc \<Rightarrow> doc" where
  "merge_fields fs d = fs @ filter (\<lambda>(f, v). f \<notin> set (map fst fs)) d"

fun doc_update :: "'k \<Rightarrow> doc \<Rightarrow> ('k \<times> doc) list \<Rightarrow> ('k \<times> doc) list" where
  "doc_update k fs [] = []"
| "doc_update k fs ((k', d') # rest) =
     (if k' = k then (k, merge_fields fs d') # rest else (k', d') # doc_update k fs rest)"

text \<open>
  \<^verbatim>\<open>collection.doc(path)\<close> of the Firestore client throws, before anything is sent, unless
  \<open>path\<close> is a non-empty text without \<^verbatim>\<open>//\<close> whose components (the non-empty pieces
  between the slashes) together with the name of the collection are even in number, that
  is, unless it names a document. \<open>doc_ref\<close> is the thrown error (of its message only the
  last sentence is kept) or the key of the document: its components, joined by slashes.
  A key with slashes is a document of a subcollection below the collection.
\<close>

fun split_slash :: "string \<Rightarrow> string list" where
  "split_slash [] = [[]]"
| "split_slash (c # cs) =
     (if c = CHR ''/'' then [] # split_slash cs
      else (case split_slash cs of
              [] \<Rightarrow> [[c]]
            | seg # segs \<Rightarrow> (c # seg) # segs))"

definition segments :: "string \<Rightarrow> string list" where
  "segments s = filter (\<lambda>seg. seg \<noteq> []) (split_slash s)"

fun join_slash :: "string list \<Rightarrow> string" where
  "join_slash [] = []"
| "join_slash [seg] = seg"
| "join_slash (seg # seg' # segs) = seg @ CHR ''/'' # join_slash (seg' # segs)"

fun doc_ref :: "jv \<Rightarrow> error + jv" where
  "doc_ref (Str s) =
     (if s = [] then Inl (Error ''Path must be a non-empty string.'')
      else if str_includes s ''//'' then Inl (Error ''Paths must not contain //.'')
      else if even (length (segments s))
      then Inl (Error ''Your path does not contain an even number of components.'')
      else Inr (Str (join_slash (segments s))))"
| "doc_ref v = Inl (Error ''Path must be a non-empty string.'')"

text \<open>The first document of a collection whose field \<open>f\<close> is \<open>v\<close>: \<^verbatim>\<open>where(f,'==',v).limit(1)\<close>.\<close>

fun doc_where :: "string \<Rightarrow> jv \<Rightarrow> ('k \<times> doc) list \<Rightarrow> ('k \<times> doc) option" where
  "doc_where f v [] = None"
| "doc_where f v ((k, d) # rest) =
     (if map_of d f = Some v then Some (k, d) else doc_where f v rest)"

text \<open>The operations a handler issues, in the order it issues them.\<close>

datatype event =
    ConfigRead
  | TokenCall jv string
  | PendingSet string doc
  | PushCall jv jv string
  | PendingUpdate string doc
  | ResultSet jv doc
  | PendingQuery jv

text \<open>The operations that only read: the config read and the token call.\<close>

fun is_read :: "event \<Rightarrow> bool" where
  "is_read ConfigRead = True"
| "is_read (TokenCall url auth) = True"
| "is_read ev = False"

text \<open>
  A request: its method, its parsed body (\<open>Undefined\<close> when there is none) and its query,
  which is always an object. A response: its status and what was sent (the CORS header,
  set on every response, is left out).
\<close>

record request =
  req_method :: string
  req_body :: jv
  req_query :: "(string \<times> jv) list"

record response =
  res_status :: nat
  res_body :: jv

section \<open>Config resolver\<close>

definition env_get :: "(string \<Rightarrow> string option) \<Rightarrow> string \<Rightarrow> jv" where
  "env_get e k = (case e k of None \<Rightarrow> Undefined | Some s \<Rightarrow> Str s)"

definition loadDarajaConfigFromFirestore :: "world \<Rightarrow> event list \<times> (error + config option)" where
  "loadDarajaConfigFromFirestore w =
     ([ConfigRead],
      case config_doc w of
        Inl e \<Rightarrow> Inl e
      | Inr None \<Rightarrow> Inr None
      | Inr (Some data) \<Rightarrow>
          if \<not> (truthy data \<and> truthy (js_get data ''consumerKey'')
                \<and> truthy (js_get data ''consumerSecret'') \<and> truthy (js_get data ''passkey'')
                \<and> truthy (js_get data ''paybill'') \<and> truthy (js_get data ''oauthurl'')
                \<and> truthy (js_get data ''stkurl'') \<and> truthy (js_get data ''callbackurl''))
          then Inr None
          else Inr (Some \<lparr>
            consumerKey = js_get data ''consumerKey'',
            consumerSecret = js_get data ''consumerSecret'',
            passkey = js_get data ''passkey'',
            paybill = Str (toString (js_get data ''paybill'')),
            oauthurl = js_get data ''oauthurl'',
            stkurl = js_get data ''stkurl'',
            callbackurl = js_get data ''callbackurl'' \<rparr>))"

definition config_missing :: error where
  "config_missing =
     Error ''Daraja config missing. Set secrets or populate app_config/daraja in Firestore.''"

definition getDarajaConfig :: "world \<Rightarrow> event list \<times> (error + config)" where
  "getDarajaConfig w =
     (let e = env_get (env w)
      in if truthy (e ''DARAJA_CONSUMER_KEY'') \<and> truthy (e ''DARAJA_CONSUMER_SECRET'')
            \<and> truthy (e ''DARAJA_PASSKEY'') \<and> truthy (e ''DARAJA_PAYBILL'')
            \<and> truthy (e ''DARAJA_OAUTHURL'') \<and> truthy (e ''DARAJA_STKURL'')
            \<and> truthy (e ''DARAJA_CALLBACKURL'')
         then ([], Inr \<lparr>
            consumerKey = e ''DARAJA_CONSUMER_KEY'',
            consumerSecret = e ''DARAJA_CONSUMER_SECRET'',
            passkey = e ''DARAJA_PASSKEY'',
            paybill = Str (toString (e ''DARAJA_PAYBILL'')),
            oauthurl = e ''DARAJA_OAUTHURL'',
            stkurl = e ''DARAJA_STKURL'',
            callbackurl = e ''DARAJA_CALLBACKURL'' \<rparr>)
         else
           case loadDarajaConfigFromFirestore w of
             (t, Inl err) \<Rightarrow> (t, Inl err)
           | (t, Inr (Some fsCfg)) \<Rightarrow> (t, Inr fsCfg)
           | (t, Inr None) \<Rightarrow> (t, Inl config_missing))"

section \<open>Payment initiator\<close>

text \<open>The \<^verbatim>\<open>Authorization\<close> header of the token call.\<close>

definition basic_auth :: "jv \<Rightarrow> jv \<Rightarrow> string" where
  "basic_auth consumerKey' consumerSecret' =
     (let creds = base64 (utf8 (toString consumerKey' @ '':'' @ toString consumerSecret'))
      in ''Basic '' @ creds)"

definition getDarajaToken :: "world \<Rightarrow> jv \<Rightarrow> jv \<Rightarrow> jv \<Rightarrow> event list \<times> (error + jv)" where
  "getDarajaToken w oauthurl' consumerKey' consumerSecret' =
     (let auth = basic_auth consumerKey' consumerSecret'
      in ([TokenCall oauthurl' auth],
          case oauth_get w oauthurl' auth of
            Inl err \<Rightarrow> Inl err
          | Inr (status, data) \<Rightarrow>
              if 200 \<le> status \<and> status < 300 \<and> truthy data \<and> truthy (js_get data ''access_token'')
              then Inr (js_get data ''access_token'')
              else
                let body = (if truthy data then JSON_stringify w data else [])
                in Inl (Error (''daraja-oauth-error:status '' @ show_int status @ '' '' @ body))))"

text \<open>
  \<^verbatim>\<open>url.includes(p)\<close> and \<^verbatim>\<open>url.replace(p, r)\<close> on a truthy value: a string has both, an
  array has \<^verbatim>\<open>includes\<close> only (membership), any other value has neither and the call
  throws a \<^verbatim>\<open>TypeError\<close>.
\<close>

fun js_includes :: "jv \<Rightarrow> string \<Rightarrow> error + bool" where
  "js_includes (Str s) p = Inr (str_includes s p)"
| "js_includes (Arr xs) p = Inr (Str p \<in> set xs)"
| "js_includes v p = Inl (TypeError ''cfg.oauthurl.includes is not a function'')"

fun js_replace :: "jv \<Rightarrow> string \<Rightarrow> string \<Rightarrow> error + jv" where
  "js_replace (Str s) p r = Inr (Str (replace s p r))"
| "js_replace v p r = Inl (TypeError ''cfg.oauthurl.replace is not a function'')"

text \<open>The token block of \<^verbatim>\<open>stkPush\<close>: the call, and in its \<^verbatim>\<open>catch\<close> the sandbox retry.\<close>

definition stkPush_token :: "world \<Rightarrow> config \<Rightarrow> event list \<times> (error + jv)" where
  "stkPush_token w cfg =
     (case getDarajaToken w (oauthurl cfg) (consumerKey cfg) (consumerSecret cfg) of
        (t1, Inr token) \<Rightarrow> (t1, Inr token)
      | (t1, Inl err) \<Rightarrow>
          (if \<not> truthy (oauthurl cfg) then (t1, Inl err)
           else
             (case js_includes (oauthurl cfg) ''api.safaricom.co.ke'' of
                Inl te \<Rightarrow> (t1, Inl te)
              | Inr False \<Rightarrow> (t1, Inl err)
              | Inr True \<Rightarrow>
                  (case js_replace (oauthurl cfg) ''api.safaricom.co.ke'' ''sandbox.safaricom.co.ke'' of
                     Inl te \<Rightarrow> (t1, Inl te)
                   | Inr sandbox \<Rightarrow>
                       (case getDarajaToken w sandbox (consumerKey cfg) (consumerSecret cfg) of
                          (t2, r) \<Rightarrow> (t1 @ t2, r))))))"

text \<open>The fields of the request: the body when it has a key, the query otherwise.\<close>

definition stkPush_body :: "request \<Rightarrow> jv" where
  "stkPush_body req =
     (if truthy (req_body req) \<and> keys_length (req_body req) \<noteq> 0
      then req_body req else Obj (req_query req))"

text \<open>The payload of the push request, and the pending record written before the call.\<close>

definition stkBody :: "config \<Rightarrow> jv \<Rightarrow> string \<Rightarrow> jv \<Rightarrow> string \<Rightarrow> jv" where
  "stkBody cfg body phone amount timestamp =
     (let password = makePassword (toString (paybill cfg)) (toString (passkey cfg)) timestamp
      in Obj [
        (''BusinessShortCode'', paybill cfg),
        (''Password'', Str password),
        (''Timestamp'', Str timestamp),
        (''TransactionType'', Str ''CustomerPayBillOnline''),
        (''Amount'', amount),
        (''PartyA'', Str phone),
        (''PartyB'', paybill cfg),
        (''PhoneNumber'', Str phone),
        (''CallBackURL'', callbackurl cfg),
        (''AccountReference'', js_or (js_get body ''accountRef'') (Str phone)),
        (''TransactionDesc'', js_or (js_get body ''description'') (Str ''Payment''))])"

definition pending_record :: "jv \<Rightarrow> string \<Rightarrow> jv \<Rightarrow> jv \<Rightarrow> doc" where
  "pending_record body phone amount requestBody = [
     (''uid'', js_or (js_get body ''uid'') Null),
     (''msisdn'', Str phone),
     (''amount'', amount),
     (''checkoutRequestId'', Null),
     (''createdAt'', ServerTimestamp),
     (''status'', Str ''initiated''),
     (''requestBody'', requestBody)]"

text \<open>The correlation identifier of the gateway's answer, under its three spellings.\<close>

definition push_checkoutRequestId :: "jv \<Rightarrow> jv" where
  "push_checkoutRequestId data =
     (if truthy data
      then js_or (js_or (js_or (js_get data ''CheckoutRequestID'') (js_get data ''checkoutRequestID''))
             (js_get data ''CheckoutRequestId'')) Null
      else Null)"

text \<open>The fields written on the pending record after the call.\<close>

definition pending_update :: "int \<Rightarrow> jv \<Rightarrow> doc" where
  "pending_update status data = [
     (''checkoutRequestId'', push_checkoutRequestId data),
     (''status'', Str (if 200 \<le> status \<and> status < 300 then ''pending'' else ''failed'')),
     (''responseStatus'', Num status),
     (''responseBody'', js_or data Null),
     (''updatedAt'', ServerTimestamp)]"

text \<open>
  The second half of the \<^verbatim>\<open>try\<close> block of \<^verbatim>\<open>stkPush\<close>, from the timestamp on: the
  pending record, the push call and the update. It gives the store it leaves, the
  operations it issued, and either the error thrown or the response sent.
\<close>

definition stkPush_submit ::
  "world \<Rightarrow> store \<Rightarrow> config \<Rightarrow> jv \<Rightarrow> jv \<Rightarrow> string \<Rightarrow> jv \<Rightarrow> store \<times> event list \<times> (error + response)" where
  "stkPush_submit w st cfg token body phone amount =
     (let timestamp = utcTimestamp (clock w);
          requestBody = stkBody cfg body phone amount timestamp;
          pendingRef = auto_id w;
          pending = pending_record body phone amount requestBody;
          t1 = [PendingSet pendingRef pending]
      in case pending_set_error w of
           Some err \<Rightarrow> (st, t1, Inl err)
         | None \<Rightarrow>
           (let st1 = st\<lparr>payments_pending := doc_set pendingRef pending (payments_pending st)\<rparr>;
                auth = ''Bearer '' @ toString token;
                t2 = t1 @ [PushCall (stkurl cfg) requestBody auth]
            in (case stk_post w (stkurl cfg) requestBody auth of
                  Inl err \<Rightarrow> (st1, t2, Inl err)
                | Inr (status, data) \<Rightarrow>
                  (let t3 = t2 @ [PendingUpdate pendingRef (pending_update status data)]
                   in (case pending_update_error w of
                         Some err \<Rightarrow> (st1, t3, Inl err)
                       | None \<Rightarrow>
                         (st1\<lparr>payments_pending :=
                                doc_update pendingRef (pending_update status data) (payments_pending st1)\<rparr>,
                          t3,
                          Inr \<lparr>res_status = 200, res_body = Obj [
                            (''ok'', Bool True),
                            (''status'', Num status),
                            (''data'', js_or data Null),
                            (''checkoutRequestId'', push_checkoutRequestId data)]\<rparr>))))))"

text \<open>The \<^verbatim>\<open>try\<close> block of \<^verbatim>\<open>stkPush\<close>.\<close>

definition stkPush_try :: "world \<Rightarrow> store \<Rightarrow> request \<Rightarrow> store \<times> event list \<times> (error + response)" where
  "stkPush_try w st req =
     (let body = stkPush_body req;
          phoneRaw = js_get body ''phone'';
          amount = parseInt (toString (js_get body ''amount''))
      in if \<not> truthy phoneRaw \<or> \<not> truthy amount
         then (st, [], Inr \<lparr>res_status = 400,
                 res_body = Obj [(''error'', Str ''phone and amount required'')]\<rparr>)
         else
           case getDarajaConfig w of
             (t1, Inl err) \<Rightarrow> (st, t1, Inl err)
           | (t1, Inr cfg) \<Rightarrow>
               (case stkPush_token w cfg of
                  (t2, Inl err) \<Rightarrow> (st, t1 @ t2, Inl err)
                | (t2, Inr token) \<Rightarrow>
                    (case normalizePhoneForDaraja phoneRaw of
                       Inl err \<Rightarrow> (st, t1 @ t2, Inl err)
                     | Inr phone \<Rightarrow>
                         (case stkPush_submit w st cfg token body phone amount of
                            (st', t3, r) \<Rightarrow> (st', t1 @ t2 @ t3, r)))))"

definition stkPush :: "world \<Rightarrow> store \<Rightarrow> request \<Rightarrow> store \<times> event list \<times> response" where
  "stkPush w st req =
     (if req_method req = ''OPTIONS'' then (st, [], \<lparr>res_status = 204, res_body = Str []\<rparr>)
      else
        case stkPush_try w st req of
          (st', t, Inr res) \<Rightarrow> (st', t, res)
        | (st', t, Inl err) \<Rightarrow>
            (st', t, \<lparr>res_status = 502, res_body = Obj [
               (''error'', Str ''stk_push_failed''),
               (''details'', Str (details_of err))]\<rparr>))"

section \<open>Callback reconciler\<close>

text \<open>The body of the notification, and the payload found in it.\<close>

definition callback_body :: "request \<Rightarrow> jv" where
  "callback_body req = js_or (req_body req) (Obj [])"

definition callback_payload :: "jv \<Rightarrow> jv" where
  "callback_payload body =
     (if truthy (js_get body ''Body'') \<and> truthy (js_get (js_get body ''Body'') ''stkCallback'')
      then js_get (js_get body ''Body'') ''stkCallback''
      else js_or (js_or (js_get body ''StkCallback'') (js_get body ''stkCallback'')) body)"

text \<open>A field of the payload under its two spellings: \<^verbatim>\<open>payload.A || payload.a || null\<close>.\<close>

definition callback_field :: "jv \<Rightarrow> string \<Rightarrow> string \<Rightarrow> jv" where
  "callback_field payload k1 k2 = js_or (js_or (js_get payload k1) (js_get payload k2)) Null"

definition callback_checkoutRequestId :: "request \<Rightarrow> jv" where
  "callback_checkoutRequestId req =
     callback_field (callback_payload (callback_body req)) ''CheckoutRequestID'' ''checkoutRequestID''"

definition callback_resultCode :: "request \<Rightarrow> jv" where
  "callback_resultCode req =
     callback_field (callback_payload (callback_body req)) ''ResultCode'' ''resultCode''"

definition callback_resultDesc :: "request \<Rightarrow> jv" where
  "callback_resultDesc req =
     callback_field (callback_payload (callback_body req)) ''ResultDesc'' ''resultDesc''"

text \<open>The key and the fields of the callback-result record.\<close>

definition callback_docId :: "world \<Rightarrow> request \<Rightarrow> jv" where
  "callback_docId w req = js_or (callback_checkoutRequestId req) (Str (auto_id w))"

definition callback_result :: "request \<Rightarrow> doc" where
  "callback_result req = [
     (''raw'', callback_body req),
     (''checkoutRequestId'', callback_checkoutRequestId req),
     (''resultCode'', callback_resultCode req),
     (''resultDesc'', callback_resultDesc req),
     (''receivedAt'', ServerTimestamp)]"

text \<open>The fields that reconciliation writes on the pending record.\<close>

definition callback_update :: "request \<Rightarrow> doc" where
  "callback_update req = [
     (''status'', Str (if callback_resultCode req = Num 0 then ''success'' else ''failed'')),
     (''resultCode'', callback_resultCode req),
     (''resultDesc'', callback_resultDesc req),
     (''callbackAt'', ServerTimestamp)]"

text \<open>
  The \<^verbatim>\<open>try\<close> block of \<^verbatim>\<open>darajaCallback\<close>. \<^verbatim>\<open>.doc(docId)\<close> comes first: when it throws,
  no operation has been issued.
\<close>

definition darajaCallback_try :: "world \<Rightarrow> store \<Rightarrow> request \<Rightarrow> store \<times> event list \<times> (error + response)" where
  "darajaCallback_try w st req =
     (let checkoutRequestId = callback_checkoutRequestId req;
          docId = callback_docId w req;
          ok = \<lparr>res_status = 200, res_body = Str ''OK''\<rparr>
      in case doc_ref docId of
           Inl err \<Rightarrow> (st, [], Inl err)
         | Inr key \<Rightarrow>
           (let t1 = [ResultSet key (callback_result req)]
            in (case result_set_error w of
                  Some err \<Rightarrow> (st, t1, Inl err)
                | None \<Rightarrow>
                  (let st1 = st\<lparr>payments_results := doc_set key (callback_result req) (payments_results st)\<rparr>
                   in if \<not> truthy checkoutRequestId then (st1, t1, Inr ok)
                      else
                        (let t2 = t1 @ [PendingQuery checkoutRequestId]
                         in (case pending_query_error w of
                               Some err \<Rightarrow> (st1, t2, Inl err)
                             | None \<Rightarrow>
                               (case doc_where ''checkoutRequestId'' checkoutRequestId (payments_pending st1) of
                                  None \<Rightarrow> (st1, t2, Inr ok)
                                | Some (pdoc, d) \<Rightarrow>
                                    (let t3 = t2 @ [PendingUpdate pdoc (callback_update req)]
                                     in (case pending_update_error w of
                                           Some err \<Rightarrow> (st1, t3, Inl err)
                                         | None \<Rightarrow>
                                           (st1\<lparr>payments_pending :=
                                                  doc_update pdoc (callback_update req) (payments_pending st1)\<rparr>,
                                            t3, Inr ok))))))))))"

definition darajaCallback :: "world \<Rightarrow> store \<Rightarrow> request \<Rightarrow> store \<times> event list \<times> response" where
  "darajaCallback w st req =
     (if req_method req = ''OPTIONS'' then (st, [], \<lparr>res_status = 204, res_body = Str []\<rparr>)
      else
        case darajaCallback_try w st req of
          (st', t, Inr res) \<Rightarrow> (st', t, res)
        | (st', t, Inl err) \<Rightarrow> (st', t, \<lparr>res_status = 500, res_body = Str ''error''\<rparr>))"

section \<open>Example inputs\<close>

text \<open>A world whose environment holds the seven values and whose gateway answers 200.\<close>

definition example_env :: "string \<Rightarrow> string option" where
  "example_env = map_of [
     (''DARAJA_CONSUMER_KEY'', ''ck''),
     (''DARAJA_CONSUMER_SECRET'', ''cs''),
     (''DARAJA_PASSKEY'', ''pk''),
     (''DARAJA_PAYBILL'', ''174379''),
     (''DARAJA_OAUTHURL'', ''https://api.safaricom.co.ke/oauth''),
     (''DARAJA_STKURL'', ''https://api.safaricom.co.ke/stk''),
     (''DARAJA_CALLBACKURL'', ''https://shop.test/cb'')]"

definition oauth_ok :: "jv \<Rightarrow> string \<Rightarrow> error + (int \<times> jv)" where
  "oauth_ok url auth = Inr (200, Obj [(''access_token'', Str ''tok'')])"

definition stk_ok :: "jv \<Rightarrow> jv \<Rightarrow> string \<Rightarrow> error + (int \<times> jv)" where
  "stk_ok url body auth = Inr (200, Obj [(''CheckoutRequestID'', Str ''abc123'')])"

definition example_clock :: utc where
  "example_clock = \<lparr>getUTCFullYear = 2024, getUTCMonth = 0, getUTCDate = 5,
     getUTCHours = 7, getUTCMinutes = 8, getUTCSeconds = 9\<rparr>"

definition example_world :: world where
  "example_world = \<lparr>
     env = example_env,
     config_doc = Inr None,
     oauth_get = oauth_ok,
     stk_post = stk_ok,
     clock = example_clock,
     auto_id = ''id1'',
     pending_set_error = None,
     pending_update_error = None,
     pending_query_error = None,
     result_set_error = None,
     JSON_stringify = toString\<rparr>"

definition empty_store :: store where
  "empty_store = \<lparr>payments_pending = [], payments_results = []\<rparr>"

text \<open>The callback of scenario 2 and a store with the pending record it refers to.\<close>

definition callback_abc123 :: request where
  "callback_abc123 = \<lparr>req_method = ''POST'',
     req_body = Obj [(''Body'', Obj [(''stkCallback'', Obj [
       (''CheckoutRequestID'', Str ''abc123''),
       (''ResultCode'', Num 0),
       (''ResultDesc'', Str ''Success'')])])],
     req_query = []\<rparr>"

text \<open>A callback whose correlation identifier is a number.\<close>

definition callback_numeric_id :: request where
  "callback_numeric_id = \<lparr>req_method = ''POST'',
     req_body = Obj [(''Body'', Obj [(''stkCallback'', Obj [
       (''CheckoutRequestID'', Num 5),
       (''ResultCode'', Num 1032),
       (''ResultDesc'', Str ''Request cancelled by user'')])])],
     req_query = []\<rparr>"

definition pending_abc123 :: store where
  "pending_abc123 = \<lparr>
     payments_pending = [(''p1'', [
       (''msisdn'', Str ''254712345678''),
       (''amount'', Num 100),
       (''checkoutRequestId'', Str ''abc123''),
       (''status'', Str ''pending'')])],
     payments_results = []\<rparr>"

text \<open>A push request with a phone and an amount in its body.\<close>

definition push_request :: "string \<Rightarrow> jv \<Rightarrow> request" where
  "push_request phone amount = \<lparr>req_method = ''POST'',
     req_body = Obj [(''phone'', Str phone), (''amount'', amount)],
     req_query = []\<rparr>"

text \<open>A gateway whose production host times out and whose sandbox host answers.\<close>

definition oauth_sandbox_only :: "jv \<Rightarrow> string \<Rightarrow> error + (int \<times> jv)" where
  "oauth_sandbox_only url auth =
     (if url = Str ''https://sandbox.safaricom.co.ke/oauth''
      then Inr (200, Obj [(''access_token'', Str ''tok'')])
      else Inl (Err ''AxiosError'' ''timeout of 15000ms exceeded''))"

text \<open>An empty environment and a complete fallback document (short-code stored as a number).\<close>

definition no_env :: "string \<Rightarrow> string option" where
  "no_env k = None"

definition example_doc :: jv where
  "example_doc = Obj [
     (''consumerKey'', Str ''ck''),
     (''consumerSecret'', Str ''cs''),
     (''passkey'', Str ''pk''),
     (''paybill'', Num 174379),
     (''oauthurl'', Str ''https://gateway.test/oauth''),
     (''stkurl'', Str ''https://gateway.test/stk''),
     (''callbackurl'', Str ''https://shop.test/cb'')]"

definition fallback_world :: world where
  "fallback_world = example_world\<lparr>env := no_env, config_doc := Inr (Some example_doc)\<rparr>"

text \<open>The bundles that the two worlds resolve to.\<close>

definition example_config :: config where
  "example_config = \<lparr>
     consumerKey = Str ''ck'',
     consumerSecret = Str ''cs'',
     passkey = Str ''pk'',
     paybill = Str ''174379'',
     oauthurl = Str ''https://api.safaricom.co.ke/oauth'',
     stkurl = Str ''https://api.safaricom.co.ke/stk'',
     callbackurl = Str ''https://shop.test/cb''\<rparr>"

definition fallback_config :: config where
  "fallback_config = \<lparr>
     consumerKey = Str ''ck'',
     consumerSecret = Str ''cs'',
     passkey = Str ''pk'',
     paybill = Str ''174379'',
     oauthurl = Str ''https://gateway.test/oauth'',
     stkurl = Str ''https://gateway.test/stk'',
     callbackurl = Str ''https://shop.test/cb''\<rparr>"

text \<open>A gateway that times out on every token call, and one that refuses the push.\<close>

definition oauth_timeout :: "jv \<Rightarrow> string \<Rightarrow> error + (int \<times> jv)" where
  "oauth_timeout url auth = Inl (Err ''AxiosError'' ''timeout of 15000ms exceeded'')"


section \<open>Properties of the helpers\<close>

subsection \<open>Numbers to text\<close>

lemma show_nat_if_eq: "show_nat_if (n < 10) n = show_nat n"
proof (induction n rule: show_nat.induct)
  case (1 n)
  then show ?case by (cases "n < 10") (simp_all add: show_nat.simps [of n])
qed

lemma show_nat_code [code]: "show_nat n = show_nat_if (n < 10) n"
  by (simp add: show_nat_if_eq)

subsection \<open>Doubles\<close>

lemma bit_length_lower: "0 < n \<Longrightarrow> 2 ^ (bit_length n - 1) \<le> n"
proof (induction n rule: bit_length.induct)
  case (1 n)
  show ?case
  proof (cases "n div 2 = 0")
    case True
    with 1(2) have "n = 1" by (simp add: div_eq_0_iff) 
    then show ?thesis by (simp add: bit_length.simps)
  next
    case False
    with 1 have ih: "2 ^ (bit_length (n div 2) - 1) \<le> n div 2" by simp
    from False have pos: "0 < bit_length (n div 2)" by (simp add: bit_length.simps [of "n div 2"])
    have "bit_length n = Suc (bit_length (n div 2))"
      using 1(2) by (simp add: bit_length.simps [of n])
    then have "(2::nat) ^ (bit_length n - 1) = 2 * 2 ^ (bit_length (n div 2) - 1)"
      using pos by (cases "bit_length (n div 2)") simp_all
    also have "\<dots> \<le> 2 * (n div 2)" using ih by simp
    also have "\<dots> \<le> n" by simp
    finally show ?thesis .
  qed
qed

lemma bit_length_upper: "n < 2 ^ bit_length n"
proof (induction n rule: bit_length.induct)
  case (1 n)
  show ?case
  proof (cases "n = 0")
    case True
    then show ?thesis by simp
  next
    case False
    with 1 have "n div 2 < 2 ^ bit_length (n div 2)" by simp
    then have "n < 2 * 2 ^ bit_length (n div 2)" by linarith
    with False show ?thesis by (simp add: bit_length.simps [of n])
  qed
qed

text \<open>Every natural number from \<open>2^1024\<close> on rounds to \<^verbatim>\<open>Infinity\<close>.\<close>

lemma round_to_double_overflow:
  assumes "2 ^ 1024 \<le> n"
  shows "round_to_double n = None"
proof -
  define b where "b = bit_length n"
  define e where "e = b - 53"
  have "(2::nat) ^ 1024 < 2 ^ b"
    using assms bit_length_upper [of n] unfolding b_def by linarith
  then have b: "1024 < b"
    by (rule power_less_imp_less_exp [rotated]) simp
  then have be: "b - 1 = 52 + e" unfolding e_def by simp
  from assms have "0 < n" by (simp add: less_le_trans [of 0 "2 ^ 1024"])
  then have lo: "2 ^ (b - 1) \<le> n" unfolding b_def by (rule bit_length_lower)
  have "(2::nat) ^ 52 = 2 ^ (b - 1) div 2 ^ e"
    unfolding be by (simp add: power_add)
  also have "\<dots> \<le> n div 2 ^ e" using lo by (rule div_le_mono)
  finally have q: "2 ^ 52 \<le> n div 2 ^ e" .
  have "(2::nat) ^ 1024 \<le> 2 ^ (b - 1)"
    using b by (intro power_increasing) simp_all
  also have "\<dots> = 2 ^ 52 * 2 ^ e" unfolding be by (simp add: power_add)
  also have "\<dots> \<le> (n div 2 ^ e) * 2 ^ e" using q by (rule mult_le_mono1)
  finally have big: "2 ^ 1024 \<le> (n div 2 ^ e) * 2 ^ e" .
  have big': "2 ^ 1024 \<le> (n div 2 ^ e + 1) * 2 ^ e"
    by (rule order_trans [OF big]) simp
  have "\<not> int n < 9007199254740992"
  proof
    assume "int n < 9007199254740992"
    then have "n < 9007199254740992" by linarith
    also have "\<dots> < (2::nat) ^ 1024" by simp
    finally show False using assms by simp
  qed
  then have "round_to_double n = round_big n"
    by (simp add: round_to_double_def)
  also have "\<dots> = None"
    using big big' unfolding round_big_def Let_def b_def [symmetric] e_def [symmetric]
    by (simp del: power_numeral)
  finally show ?thesis .
qed

text \<open>The number \<open>10^21\<close> is a double; its text has an exponent, and parses to 1.\<close>

lemma show_nat_numeral:
  "show_nat (numeral k) =
     (if numeral k < (10::nat) then [digit_char (numeral k)]
      else show_nat (numeral k div 10) @ [digit_char (numeral k mod 10)])"
  "show_nat (Suc 0) = ''1''"
  "show_nat 0 = ''0''"
  by (subst show_nat.simps, simp add: digit_char_def)+

lemma bit_length_numeral:
  "bit_length (numeral k) = Suc (bit_length (numeral k div 2))"
  "bit_length (Suc 0) = 1"
  "bit_length 0 = 0" 
  by (simp_all add: bit_length.simps)

lemma round_to_double_1e21: "round_to_double 1000000000000000000000 = Some 1000000000000000000000"
  by (simp add: round_to_double_def round_big_def Let_def bit_length_numeral)

lemma round_to_double_2e21: "round_to_double 2000000000000000000000 = Some 2000000000000000000000"
  by (simp add: round_to_double_def round_big_def Let_def bit_length_numeral)

lemma show_nat_1e21: "show_nat 1000000000000000000000 = ''1000000000000000000000''"
  by (simp add: show_nat_numeral digit_char_def)

lemma scales_1e21: "scales 1000000000000000000000 = 1000000000000000000000 # map (\<lambda>i. 10 ^ i) (rev [0 ..< 21])"
proof -
  have l: "length ''1000000000000000000000'' = 22" by simp
  have r: "rev [0 ..< 22] = (21::nat) # rev [0 ..< 21]" by code_simp
  show ?thesis unfolding scales_def show_nat_1e21 l r by simp
qed

lemma shortest_1e21: "shortest 1000000000000000000000 (scales 1000000000000000000000) = 1000000000000000000000"
  by (simp add: scales_1e21 candidate_def round_to_double_1e21 round_to_double_2e21 Let_def)

lemma number_text_1e21: "number_text 1000000000000000000000 = ''1e+21''"
proof -
  have d: "digits_text ''1000000000000000000000'' = ''1e+21''" by code_simp
  have "number_text 1000000000000000000000 = double_text 1000000000000000000000"
    by (simp add: number_text_def round_to_double_1e21)
  also have "\<dots> = ''1e+21''"
    unfolding double_text_def shortest_1e21 show_nat_1e21 by (rule d)
  finally show ?thesis .
qed

lemma toString_1e21: "toString (Num 1000000000000000000000) = ''1e+21''"
  by (simp add: number_text_1e21)

lemma parseInt_1e21_text: "parseInt ''1e+21'' = Num 1"
  by code_simp

lemma parseInt_toString_1e21: "parseInt (toString (Num 1000000000000000000000)) = Num 1"
  unfolding toString_1e21 by (rule parseInt_1e21_text)


text \<open>Digits beyond \<open>2^53\<close> parse to the nearest double, the even one of two.\<close>

lemma parseInt_rounds_example:
  "parseInt ''9007199254740993'' = Num 9007199254740992
   \<and> parseInt ''9007199254740995'' = Num 9007199254740996"
  by (simp add: parseInt_def Let_def is_space_def is_digit_def digits_val_def digit_val_def
                round_to_double_def round_big_def bit_length_numeral)

text \<open>
  The amount \<open>1\<close> followed by 309 zeros parses to \<^verbatim>\<open>Infinity\<close>, which is truthy and so
  passes the test of \<^verbatim>\<open>stkPush\<close>.
\<close>

lemma parseInt_overflow_example:
  "parseInt (CHR ''1'' # replicate 309 (CHR ''0'')) = Infinity
   \<and> truthy (parseInt (CHR ''1'' # replicate 309 (CHR ''0'')))"
proof -
  let ?s = "CHR ''1'' # replicate 309 (CHR ''0'')"
  have f: "foldl (\<lambda>acc c. 10 * acc + digit_val c) a (replicate k (CHR ''0'')) = a * 10 ^ k" for a k
    by (induction k arbitrary: a) (simp_all add: digit_val_def)
  have "digits_val ?s
      = foldl (\<lambda>acc c. 10 * acc + digit_val c) (digit_val (CHR ''1'')) (replicate 309 (CHR ''0''))"
    by (simp add: digits_val_def)
  also have "\<dots> = digit_val (CHR ''1'') * 10 ^ 309"
    by (rule f)
  finally have d: "digits_val ?s = 10 ^ 309"
    by (simp add: digit_val_def)
  have z: "takeWhile is_digit ?s = ?s"
    by (simp add: takeWhile_eq_all_conv is_digit_def)
  have s: "dropWhile is_space ?s = ?s"
    by (simp add: is_space_def)
  have n: "nat (10 ^ 309) = 10 ^ 309"
    by (simp add: nat_power_eq)
  have r: "round_to_double (10 ^ 309) = None"
    by (rule round_to_double_overflow) simp
  have s1: "(if ?s \<noteq> [] \<and> (hd ?s = CHR ''+'' \<or> hd ?s = CHR ''-'') then tl ?s else ?s) = ?s"
    by simp
  have "parseInt ?s = to_number (digits_val ?s < 9007199254740992) False (digits_val ?s)"
    unfolding parseInt_def Let_def s s1 z by simp
  also have "\<dots> = to_number False False (10 ^ 309)"
    unfolding d by simp
  also have "\<dots> = Infinity"
    unfolding to_number.simps n r by simp
  finally show ?thesis by simp
qed

subsection \<open>Phone normalization\<close>

lemma digit_not_space: "is_digit c \<Longrightarrow> \<not> is_space c"
  by (auto simp: is_digit_def is_space_def)

lemma filter_dropWhile_disjoint:
  "(\<And>x. P x \<Longrightarrow> \<not> Q x) \<Longrightarrow> filter P (dropWhile Q xs) = filter P xs"
  by (induction xs) auto

lemma filter_digit_trim: "filter is_digit (trim s) = filter is_digit s"
proof -
  have "filter is_digit (trim s) = rev (filter is_digit (dropWhile is_space (rev (dropWhile is_space s))))"
    by (simp only: trim_def rev_filter)
  also have "\<dots> = rev (filter is_digit (rev (dropWhile is_space s)))"
    by (simp only: filter_dropWhile_disjoint [OF digit_not_space])
  also have "\<dots> = filter is_digit (dropWhile is_space s)"
    by (simp only: rev_filter rev_rev_ident)
  also have "\<dots> = filter is_digit s"
    by (simp only: filter_dropWhile_disjoint [OF digit_not_space])
  finally show ?thesis .
qed

lemma plus_not_digit: "\<not> is_digit CHR ''+''"
  by (simp add: is_digit_def)

lemma filter_digit_strip_plus:
  "filter is_digit (if startsWith s ''+'' then drop 1 s else s) = filter is_digit s"
  by (cases s) (auto simp: plus_not_digit)

lemma re_0_7_d8_iff:
  "list_all is_digit d \<Longrightarrow> re_0_7_d8 d \<longleftrightarrow> length d = 10 \<and> take 2 d = ''07''"
  by (cases d; cases "tl d") (auto simp: re_0_7_d8_def)

lemma re_7_d8_iff:
  "list_all is_digit d \<Longrightarrow> re_7_d8 d \<longleftrightarrow> length d = 9 \<and> take 1 d = ''7''"
  by (cases d) (auto simp: re_7_d8_def)

lemma re_254_7_d8_iff:
  "list_all is_digit d \<Longrightarrow> re_254_7_d8 d \<longleftrightarrow> length d = 12 \<and> take 4 d = ''2547''"
  by (cases d; cases "tl d"; cases "tl (tl d)"; cases "tl (tl (tl d))") (auto simp: re_254_7_d8_def)

lemma list_all_filter_digit: "list_all is_digit (filter is_digit s)"
  by (simp add: list_all_iff)


text \<open>
  C2, as the code has it. On an input string that is not empty after trimming, the digits of
  the input decide: ten digits starting \<open>07\<close> give \<open>254\<close> and the digits after the
  \<open>0\<close>; nine digits starting \<open>7\<close> give \<open>254\<close> and the digits; twelve digits starting
  \<open>2547\<close> are returned; any other digit pattern fails with the unsupported-format error
  naming the raw input. The strip of a leading \<open>+\<close> and of the non-digits amounts to
  keeping the digits of the raw input. An input that is empty after trimming fails with
  the phone-is-empty error instead.
\<close>

theorem normalizePhone_shapes:
  "normalizePhoneForDaraja (Str raw) =
     (if trim raw = [] then Inl (Error ''Phone is empty'')
      else if length (filter is_digit raw) = 10 \<and> take 2 (filter is_digit raw) = ''07''
        then Inr (''254'' @ tl (filter is_digit raw))
      else if length (filter is_digit raw) = 9 \<and> take 1 (filter is_digit raw) = ''7''
        then Inr (''254'' @ filter is_digit raw)
      else if length (filter is_digit raw) = 12 \<and> take 4 (filter is_digit raw) = ''2547''
        then Inr (filter is_digit raw)
      else Inl (Error (''Unsupported phone format: '' @ raw)))"
proof (cases "raw = []")
  case True
  then show ?thesis by (simp add: normalizePhoneForDaraja_def js_or_def trim_def)
next
  case False
  then have t: "trim (toString (js_or (Str raw) (Str []))) = trim raw"
    by (simp add: js_or_def)
  have d: "filter is_digit (if startsWith (trim raw) ''+'' then drop 1 (trim raw) else trim raw)
           = filter is_digit raw"
    by (simp only: filter_digit_strip_plus filter_digit_trim)
  show ?thesis
    unfolding normalizePhoneForDaraja_def t Let_def d
    by (simp add: re_0_7_d8_iff re_7_d8_iff re_254_7_d8_iff list_all_filter_digit drop_Suc)
qed

text \<open>Each of the three shapes, and a digit pattern that is none of them.\<close>

theorem normalizePhone_shapes_witness:
  "normalizePhoneForDaraja (Str ''0712345678'') = Inr ''254712345678''
   \<and> normalizePhoneForDaraja (Str ''+254 712 345 678'') = Inr ''254712345678''
   \<and> normalizePhoneForDaraja (Str ''712345678'') = Inr ''254712345678''
   \<and> normalizePhoneForDaraja (Str ''0711'') = Inl (Error ''Unsupported phone format: 0711'')"
  using normalizePhone_shapes [of "''0712345678''"] normalizePhone_shapes [of "''+254 712 345 678''"]
    normalizePhone_shapes [of "''712345678''"] normalizePhone_shapes [of "''0711''"]
  by code_simp

text \<open>
  C2 as stated fails on a blank input: it has no digits, so it is none of the three shapes,
  and the error is not the unsupported-format error.
\<close>

theorem normalizePhone_blank_counterexample:
  "filter is_digit '' '' = []
   \<and> normalizePhoneForDaraja (Str '' '') = Inl (Error ''Phone is empty'')
   \<and> normalizePhoneForDaraja (Str '' '') \<noteq> Inl (Error (''Unsupported phone format: '' @ '' ''))"
  by code_simp

subsection \<open>Password derivation\<close>

lemma b64_alphabet_length: "length b64_alphabet = 64"
  by (simp add: b64_alphabet_def)


lemma b64_alphabet_no_pad: "CHR ''='' \<notin> set b64_alphabet"
  by (simp add: b64_alphabet_def)


lemma b64_char_not_pad [simp]: "b64_char n \<noteq> CHR ''=''" "CHR ''='' \<noteq> b64_char n"
proof -
  have "b64_char n \<in> set b64_alphabet"
    unfolding b64_char_def by (rule nth_mem) (simp add: b64_alphabet_length)
  with b64_alphabet_no_pad show "b64_char n \<noteq> CHR ''=''" "CHR ''='' \<noteq> b64_char n"
    by auto
qed




lemma base64_Nil_iff [simp]: "base64 xs = [] \<longleftrightarrow> xs = []" "[] = base64 xs \<longleftrightarrow> xs = []"
  by (cases xs rule: base64.cases; simp)+














section \<open>Properties of the callback reconciler\<close>

lemma map_of_doc_set: "map_of (doc_set k d xs) k = Some d"
  by (induction xs) auto

lemma callback_field_not_zero: "callback_field p k1 k2 \<noteq> Num 0"
  by (cases "js_get p k1"; cases "js_get p k2") (auto simp: callback_field_def js_or_def)

lemma callback_update_status:
  "map_of (callback_update req) ''status'' = Some (Str ''failed'')"
  by (simp add: callback_update_def callback_resultCode_def callback_field_not_zero)

lemma darajaCallback_never_success:
  "PendingUpdate k upd \<in> set (fst (snd (darajaCallback w st req)))
   \<Longrightarrow> map_of upd ''status'' = Some (Str ''failed'')"
  by (auto simp: darajaCallback_def darajaCallback_try_def Let_def callback_update_status
           split: if_splits option.splits sum.splits)

lemma split_slash_plain: "CHR ''/'' \<notin> set s \<Longrightarrow> split_slash s = [s]"
  by (induction s) auto

text \<open>A non-empty text without a slash names the document of which it is the key.\<close>

lemma doc_ref_plain:
  assumes "s \<noteq> []" and "CHR ''/'' \<notin> set s"
  shows "doc_ref (Str s) = Inr (Str s)"
proof -
  have "\<not> str_includes t ''//''" if "CHR ''/'' \<notin> set t" for t
    using that by (induction t) auto
  with assms show ?thesis
    by (simp add: segments_def split_slash_plain)
qed

lemma doc_ref_not_text:
  "(\<forall>s. v \<noteq> Str s) \<Longrightarrow> doc_ref v = Inl (Error ''Path must be a non-empty string.'')"
  by (cases v) auto

text \<open>Texts with slashes: a path of two components names no document, one of three does.\<close>

lemma doc_ref_examples:
  "doc_ref (Str ''a/b'') = Inl (Error ''Your path does not contain an even number of components.'')"
  "doc_ref (Str ''a/b/c'') = Inr (Str ''a/b/c'')"
  "doc_ref (Str ''abc/'') = Inr (Str ''abc'')"
  "doc_ref (Str ''a//b'') = Inl (Error ''Paths must not contain //.'')"
  by code_simp+


text \<open>
  C1 (the code departs from the claim). The callback of scenario 2, with result code 0,
  against the pending record with the same correlation identifier: the record is marked
  \<open>failed\<close> and the stored result code is null, because \<^verbatim>\<open>payload.ResultCode || ...\<close>
  drops the falsy 0 before \<^verbatim>\<open>resultCode === 0\<close> is tested.
\<close>

theorem darajaCallback_zero_code_marks_failed:
  "darajaCallback example_world pending_abc123 callback_abc123 =
     (\<lparr>payments_pending = [(''p1'', [
          (''status'', Str ''failed''),
          (''resultCode'', Null),
          (''resultDesc'', Str ''Success''),
          (''callbackAt'', ServerTimestamp),
          (''msisdn'', Str ''254712345678''),
          (''amount'', Num 100),
          (''checkoutRequestId'', Str ''abc123'')])],
        payments_results = [(Str ''abc123'', callback_result callback_abc123)]\<rparr>,
      [ResultSet (Str ''abc123'') (callback_result callback_abc123),
       PendingQuery (Str ''abc123''),
       PendingUpdate ''p1'' [
          (''status'', Str ''failed''),
          (''resultCode'', Null),
          (''resultDesc'', Str ''Success''),
          (''callbackAt'', ServerTimestamp)]],
      \<lparr>res_status = 200, res_body = Str ''OK''\<rparr>)"
  by code_simp

text \<open>
  C9, as the code has it. The record is keyed by the correlation identifier when there is
  one and by a generated key otherwise, and holds the raw body, the extracted fields and
  the receipt timestamp. When the key names a document (as a non-empty text without a
  slash does), the first operation of the handler is the write of the record; when the
  store accepts the write the record is in the store afterwards, whatever follows; when
  no pending record matches, no pending record is touched (no update is issued and the
  pending collection is unchanged) and the answer is 200 \<open>OK\<close>. When the key names no
  document (as every identifier that is not a text), \<^verbatim>\<open>.doc(docId)\<close> throws: no operation
  is issued, the store is unchanged and the answer is 500.
\<close>

theorem darajaCallback_result_always_written:
  assumes "req_method req \<noteq> ''OPTIONS''"
  shows "callback_docId w req =
           (if truthy (callback_checkoutRequestId req) then callback_checkoutRequestId req
            else Str (auto_id w))
       \<and> callback_result req = [
           (''raw'', callback_body req),
           (''checkoutRequestId'', callback_checkoutRequestId req),
           (''resultCode'', callback_resultCode req),
           (''resultDesc'', callback_resultDesc req),
           (''receivedAt'', ServerTimestamp)]
       \<and> (callback_docId w req = Str s \<and> s \<noteq> [] \<and> CHR ''/'' \<notin> set s
           \<longrightarrow> doc_ref (callback_docId w req) = Inr (Str s))
       \<and> ((\<forall>s. callback_docId w req \<noteq> Str s)
           \<longrightarrow> doc_ref (callback_docId w req) = Inl (Error ''Path must be a non-empty string.''))
       \<and> (doc_ref (callback_docId w req) = Inl err
           \<longrightarrow> darajaCallback w st req = (st, [], \<lparr>res_status = 500, res_body = Str ''error''\<rparr>))
       \<and> (doc_ref (callback_docId w req) = Inr key
           \<longrightarrow> take 1 (fst (snd (darajaCallback w st req))) = [ResultSet key (callback_result req)]
             \<and> (result_set_error w = None \<longrightarrow>
                  map_of (payments_results (fst (darajaCallback w st req))) key
                    = Some (callback_result req))
             \<and> (result_set_error w = None
               \<and> (\<not> truthy (callback_checkoutRequestId req)
                  \<or> pending_query_error w = None
                    \<and> doc_where ''checkoutRequestId'' (callback_checkoutRequestId req) (payments_pending st) = None)
               \<longrightarrow> payments_pending (fst (darajaCallback w st req)) = payments_pending st
                 \<and> PendingUpdate k u \<notin> set (fst (snd (darajaCallback w st req)))
                 \<and> snd (snd (darajaCallback w st req)) = \<lparr>res_status = 200, res_body = Str ''OK''\<rparr>))"
proof -
  have a: "callback_docId w req =
           (if truthy (callback_checkoutRequestId req) then callback_checkoutRequestId req
            else Str (auto_id w))"
    by (simp add: callback_docId_def js_or_def)
  have b: "callback_docId w req = Str s \<and> s \<noteq> [] \<and> CHR ''/'' \<notin> set s
           \<longrightarrow> doc_ref (callback_docId w req) = Inr (Str s)"
    by (auto simp del: doc_ref.simps simp add: doc_ref_plain)
  have c: "(\<forall>s. callback_docId w req \<noteq> Str s)
           \<longrightarrow> doc_ref (callback_docId w req) = Inl (Error ''Path must be a non-empty string.'')"
    by (simp add: doc_ref_not_text)
  have d: "doc_ref (callback_docId w req) = Inl err
           \<longrightarrow> darajaCallback w st req = (st, [], \<lparr>res_status = 500, res_body = Str ''error''\<rparr>)"
    using assms by (simp add: darajaCallback_def darajaCallback_try_def)
  have e: "doc_ref (callback_docId w req) = Inr key
           \<longrightarrow> take 1 (fst (snd (darajaCallback w st req))) = [ResultSet key (callback_result req)]
             \<and> (result_set_error w = None \<longrightarrow>
                  map_of (payments_results (fst (darajaCallback w st req))) key
                    = Some (callback_result req))
             \<and> (result_set_error w = None
               \<and> (\<not> truthy (callback_checkoutRequestId req)
                  \<or> pending_query_error w = None
                    \<and> doc_where ''checkoutRequestId'' (callback_checkoutRequestId req) (payments_pending st) = None)
               \<longrightarrow> payments_pending (fst (darajaCallback w st req)) = payments_pending st
                 \<and> PendingUpdate k u \<notin> set (fst (snd (darajaCallback w st req)))
                 \<and> snd (snd (darajaCallback w st req)) = \<lparr>res_status = 200, res_body = Str ''OK''\<rparr>)"
    using assms
    by (auto simp: darajaCallback_def darajaCallback_try_def Let_def map_of_doc_set
             split: option.splits)
  from a b c d e show ?thesis
    by (simp add: callback_result_def)
qed

text \<open>
  Scenario 3, the callback of scenario 2 against a store with no pending record, and the
  callback whose correlation identifier is the number 5.
\<close>

theorem darajaCallback_result_always_written_witness:
  "req_method callback_abc123 \<noteq> ''OPTIONS''
   \<and> callback_docId example_world callback_abc123 = Str ''abc123''
   \<and> doc_ref (callback_docId example_world callback_abc123) = Inr (Str ''abc123'')
   \<and> result_set_error example_world = None
   \<and> pending_query_error example_world = None
   \<and> doc_where ''checkoutRequestId'' (callback_checkoutRequestId callback_abc123)
        (payments_pending empty_store) = None
   \<and> map_of (payments_results (fst (darajaCallback example_world empty_store callback_abc123)))
        (Str ''abc123'') = Some (callback_result callback_abc123)
   \<and> payments_pending (fst (darajaCallback example_world empty_store callback_abc123)) = []
   \<and> snd (snd (darajaCallback example_world empty_store callback_abc123))
        = \<lparr>res_status = 200, res_body = Str ''OK''\<rparr>
   \<and> req_method callback_numeric_id \<noteq> ''OPTIONS''
   \<and> callback_docId example_world callback_numeric_id = Num 5
   \<and> doc_ref (callback_docId example_world callback_numeric_id)
        = Inl (Error ''Path must be a non-empty string.'')
   \<and> darajaCallback example_world empty_store callback_numeric_id
        = (empty_store, [], \<lparr>res_status = 500, res_body = Str ''error''\<rparr>)"
proof -
  have m: "req_method callback_abc123 \<noteq> ''OPTIONS''"
    by (simp add: callback_abc123_def)
  have h: "result_set_error example_world = None" "pending_query_error example_world = None"
    by (simp_all add: example_world_def)
  have n: "doc_where ''checkoutRequestId'' (callback_checkoutRequestId callback_abc123)
        (payments_pending empty_store) = None"
    by (simp add: empty_store_def)
  have k: "callback_docId example_world callback_abc123 = Str ''abc123''"
    by code_simp
  have s: "''abc123'' \<noteq> []" "CHR ''/'' \<notin> set ''abc123''"
    by simp_all
  have e: "payments_pending empty_store = []"
    by (simp add: empty_store_def)
  note T = darajaCallback_result_always_written
    [OF m, where w = example_world and st = empty_store and s = "''abc123''"
       and key = "Str ''abc123''" and k = "[]" and u = "[]"]
  from T k s
  have r: "doc_ref (callback_docId example_world callback_abc123) = Inr (Str ''abc123'')"
    by blast
  from T r h
  have a: "map_of (payments_results (fst (darajaCallback example_world empty_store callback_abc123)))
        (Str ''abc123'') = Some (callback_result callback_abc123)"
    by blast
  from T r h n
  have b: "payments_pending (fst (darajaCallback example_world empty_store callback_abc123))
        = payments_pending empty_store
      \<and> snd (snd (darajaCallback example_world empty_store callback_abc123))
        = \<lparr>res_status = 200, res_body = Str ''OK''\<rparr>"
    by blast
  have m': "req_method callback_numeric_id \<noteq> ''OPTIONS''"
    by (simp add: callback_numeric_id_def)
  have k': "callback_docId example_world callback_numeric_id = Num 5"
    by code_simp
  note T' = darajaCallback_result_always_written
    [OF m', where w = example_world and st = empty_store
       and err = "Error ''Path must be a non-empty string.''"]
  from T' [THEN conjunct2, THEN conjunct2, THEN conjunct2, THEN conjunct1]
  have r': "doc_ref (callback_docId example_world callback_numeric_id)
        = Inl (Error ''Path must be a non-empty string.'')"
    by (simp add: k')
  from T' r'
  have c: "darajaCallback example_world empty_store callback_numeric_id
        = (empty_store, [], \<lparr>res_status = 500, res_body = Str ''error''\<rparr>)"
    by blast
  from m k r h n a b m' k' r' c show ?thesis unfolding e by simp
qed

text \<open>
  C9 as stated fails: the callback whose correlation identifier is the number 5 writes no
  callback-result record, in a world whose store accepts every write; the answer is 500.
\<close>

theorem darajaCallback_numeric_id_counterexample:
  "darajaCallback example_world empty_store callback_numeric_id
     = (empty_store, [], \<lparr>res_status = 500, res_body = Str ''error''\<rparr>)
   \<and> callback_checkoutRequestId callback_numeric_id = Num 5
   \<and> result_set_error example_world = None"
  by code_simp

text \<open>
  C10. The lookup and the update are issued, and a pending record is changed, only after
  the write of the callback-result record, which is the first operation, was accepted:
  the record is in the store. When the lookup or the update throws, the operations begin
  with the write and the lookup, the store is the old store with the callback-result
  record written and nothing else, and the answer is 500.
\<close>

theorem darajaCallback_error_prefix:
  assumes "req_method req \<noteq> ''OPTIONS''"
  shows "(PendingQuery v \<in> set (fst (snd (darajaCallback w st req)))
          \<or> PendingUpdate k u \<in> set (fst (snd (darajaCallback w st req)))
          \<or> payments_pending (fst (darajaCallback w st req)) \<noteq> payments_pending st
         \<longrightarrow> (\<exists>key. doc_ref (callback_docId w req) = Inr key
               \<and> take 1 (fst (snd (darajaCallback w st req))) = [ResultSet key (callback_result req)]
               \<and> result_set_error w = None
               \<and> map_of (payments_results (fst (darajaCallback w st req))) key
                   = Some (callback_result req)))
       \<and> (doc_ref (callback_docId w req) = Inr key
         \<and> result_set_error w = None \<and> truthy (callback_checkoutRequestId req)
         \<and> (pending_query_error w \<noteq> None
            \<or> doc_where ''checkoutRequestId'' (callback_checkoutRequestId req) (payments_pending st) \<noteq> None
              \<and> pending_update_error w \<noteq> None)
         \<longrightarrow> take 2 (fst (snd (darajaCallback w st req)))
               = [ResultSet key (callback_result req), PendingQuery (callback_checkoutRequestId req)]
           \<and> fst (darajaCallback w st req)
               = st\<lparr>payments_results := doc_set key (callback_result req) (payments_results st)\<rparr>
           \<and> map_of (payments_results (fst (darajaCallback w st req))) key
               = Some (callback_result req)
           \<and> snd (snd (darajaCallback w st req)) = \<lparr>res_status = 500, res_body = Str ''error''\<rparr>)"
  using assms
  by (auto simp: darajaCallback_def darajaCallback_try_def Let_def map_of_doc_set
           split: option.splits sum.splits)

text \<open>The callback of scenario 2 when the update of the pending record is rejected.\<close>

theorem darajaCallback_error_prefix_witness:
  "req_method callback_abc123 \<noteq> ''OPTIONS''
   \<and> doc_ref (callback_docId (example_world\<lparr>pending_update_error := Some (Error ''unavailable'')\<rparr>)
        callback_abc123) = Inr (Str ''abc123'')
   \<and> result_set_error (example_world\<lparr>pending_update_error := Some (Error ''unavailable'')\<rparr>) = None
   \<and> truthy (callback_checkoutRequestId callback_abc123)
   \<and> doc_where ''checkoutRequestId'' (callback_checkoutRequestId callback_abc123)
        (payments_pending pending_abc123) \<noteq> None
   \<and> pending_update_error (example_world\<lparr>pending_update_error := Some (Error ''unavailable'')\<rparr>) \<noteq> None
   \<and> payments_pending (fst (darajaCallback
          (example_world\<lparr>pending_update_error := Some (Error ''unavailable'')\<rparr>)
          pending_abc123 callback_abc123)) = payments_pending pending_abc123
   \<and> payments_results (fst (darajaCallback
          (example_world\<lparr>pending_update_error := Some (Error ''unavailable'')\<rparr>)
          pending_abc123 callback_abc123)) = [(Str ''abc123'', callback_result callback_abc123)]
   \<and> snd (snd (darajaCallback
          (example_world\<lparr>pending_update_error := Some (Error ''unavailable'')\<rparr>)
          pending_abc123 callback_abc123)) = \<lparr>res_status = 500, res_body = Str ''error''\<rparr>"
proof -
  let ?w = "example_world\<lparr>pending_update_error := Some (Error ''unavailable'')\<rparr>"
  have m: "req_method callback_abc123 \<noteq> ''OPTIONS''"
    by (simp add: callback_abc123_def)
  have h: "result_set_error ?w = None" "pending_update_error ?w \<noteq> None"
    by (simp_all add: example_world_def)
  have c: "callback_checkoutRequestId callback_abc123 = Str ''abc123''"
    by code_simp
  have t: "truthy (callback_checkoutRequestId callback_abc123)"
    by (simp add: c)
  have n: "doc_where ''checkoutRequestId'' (callback_checkoutRequestId callback_abc123)
        (payments_pending pending_abc123) \<noteq> None"
    by (simp add: c pending_abc123_def)
  have k: "callback_docId ?w callback_abc123 = Str ''abc123''"
    by (simp add: callback_docId_def c js_or_def)
  have d: "doc_ref (callback_docId ?w callback_abc123) = Inr (Str ''abc123'')"
    unfolding k by code_simp
  have r: "payments_results pending_abc123 = []"
    by (simp add: pending_abc123_def)
  note T = darajaCallback_error_prefix
    [OF m, where w = ?w and st = pending_abc123 and key = "Str ''abc123''"]
  from T d h t n have a: "fst (darajaCallback ?w pending_abc123 callback_abc123)
        = pending_abc123\<lparr>payments_results :=
            doc_set (Str ''abc123'') (callback_result callback_abc123)
              (payments_results pending_abc123)\<rparr>
      \<and> snd (snd (darajaCallback ?w pending_abc123 callback_abc123))
        = \<lparr>res_status = 500, res_body = Str ''error''\<rparr>"
    by blast
  from a m d h t n show ?thesis by (simp add: r)
qed

section \<open>Properties of the config resolver\<close>

lemma getDarajaConfig_reads: "list_all is_read (fst (getDarajaConfig w))"
  by (simp add: getDarajaConfig_def loadDarajaConfigFromFirestore_def Let_def
           split: sum.splits option.splits)

lemma getDarajaToken_trace:
  "fst (getDarajaToken w url ck cs) = [TokenCall url (basic_auth ck cs)]"
  by (simp add: getDarajaToken_def Let_def)

lemma stkPush_token_reads: "list_all is_read (fst (stkPush_token w cfg))"
  by (simp add: stkPush_token_def case_prod_beta getDarajaToken_trace
           split: sum.splits bool.splits)


text \<open>
  C5. When the seven environment values are all set and not empty, the bundle is built from
  them (the short-code as text) and the fallback document is not read. Otherwise the
  fallback document is read; when it exists and its seven fields are all truthy, the bundle
  holds these fields (the short-code as text); when it does not exist or a field is
  missing, the result is the configuration-missing error, whose message names both
  remedies. Every bundle returned is complete: its seven fields come from seven truthy
  values.
\<close>

theorem getDarajaConfig_resolution:
  "((\<forall>k \<in> set [''DARAJA_CONSUMER_KEY'', ''DARAJA_CONSUMER_SECRET'', ''DARAJA_PASSKEY'',
        ''DARAJA_PAYBILL'', ''DARAJA_OAUTHURL'', ''DARAJA_STKURL'', ''DARAJA_CALLBACKURL''].
        env w k \<noteq> None \<and> env w k \<noteq> Some [])
    \<longrightarrow> getDarajaConfig w = ([], Inr \<lparr>
          consumerKey = env_get (env w) ''DARAJA_CONSUMER_KEY'',
          consumerSecret = env_get (env w) ''DARAJA_CONSUMER_SECRET'',
          passkey = env_get (env w) ''DARAJA_PASSKEY'',
          paybill = Str (toString (env_get (env w) ''DARAJA_PAYBILL'')),
          oauthurl = env_get (env w) ''DARAJA_OAUTHURL'',
          stkurl = env_get (env w) ''DARAJA_STKURL'',
          callbackurl = env_get (env w) ''DARAJA_CALLBACKURL''\<rparr>))
   \<and> (\<not> (\<forall>k \<in> set [''DARAJA_CONSUMER_KEY'', ''DARAJA_CONSUMER_SECRET'', ''DARAJA_PASSKEY'',
        ''DARAJA_PAYBILL'', ''DARAJA_OAUTHURL'', ''DARAJA_STKURL'', ''DARAJA_CALLBACKURL''].
        env w k \<noteq> None \<and> env w k \<noteq> Some [])
      \<longrightarrow>
        (config_doc w = Inr (Some data) \<and> truthy data
          \<and> (\<forall>f \<in> set [''consumerKey'', ''consumerSecret'', ''passkey'', ''paybill'',
                ''oauthurl'', ''stkurl'', ''callbackurl'']. truthy (js_get data f))
         \<longrightarrow> getDarajaConfig w = ([ConfigRead], Inr \<lparr>
               consumerKey = js_get data ''consumerKey'',
               consumerSecret = js_get data ''consumerSecret'',
               passkey = js_get data ''passkey'',
               paybill = Str (toString (js_get data ''paybill'')),
               oauthurl = js_get data ''oauthurl'',
               stkurl = js_get data ''stkurl'',
               callbackurl = js_get data ''callbackurl''\<rparr>))
        \<and> (config_doc w = Inr None
            \<or> config_doc w = Inr (Some data)
              \<and> \<not> (truthy data
                \<and> (\<forall>f \<in> set [''consumerKey'', ''consumerSecret'', ''passkey'', ''paybill'',
                      ''oauthurl'', ''stkurl'', ''callbackurl'']. truthy (js_get data f)))
           \<longrightarrow> getDarajaConfig w = ([ConfigRead], Inl config_missing)))
   \<and> (snd (getDarajaConfig w) = Inr cfg
      \<longrightarrow> truthy (consumerKey cfg) \<and> truthy (consumerSecret cfg) \<and> truthy (passkey cfg)
        \<and> (\<exists>v. truthy v \<and> paybill cfg = Str (toString v))
        \<and> truthy (oauthurl cfg) \<and> truthy (stkurl cfg) \<and> truthy (callbackurl cfg))
   \<and> str_includes (message config_missing) ''Set secrets''
   \<and> str_includes (message config_missing) ''populate app_config/daraja in Firestore''"
proof -
  have m: "str_includes (message config_missing) ''Set secrets''
     \<and> str_includes (message config_missing) ''populate app_config/daraja in Firestore''"
    by code_simp
  have t: "truthy (env_get e k) \<longleftrightarrow> e k \<noteq> None \<and> e k \<noteq> Some []" for e k
    by (simp add: env_get_def split: option.splits)
  have c: "snd (getDarajaConfig w) = Inr cfg
      \<longrightarrow> truthy (consumerKey cfg) \<and> truthy (consumerSecret cfg) \<and> truthy (passkey cfg)
        \<and> (\<exists>v. truthy v \<and> paybill cfg = Str (toString v))
        \<and> truthy (oauthurl cfg) \<and> truthy (stkurl cfg) \<and> truthy (callbackurl cfg)"
    unfolding getDarajaConfig_def loadDarajaConfigFromFirestore_def Let_def
    by (auto split: sum.splits option.splits if_splits)
  have r: "((\<forall>k \<in> set [''DARAJA_CONSUMER_KEY'', ''DARAJA_CONSUMER_SECRET'', ''DARAJA_PASSKEY'',
        ''DARAJA_PAYBILL'', ''DARAJA_OAUTHURL'', ''DARAJA_STKURL'', ''DARAJA_CALLBACKURL''].
        env w k \<noteq> None \<and> env w k \<noteq> Some [])
    \<longrightarrow> getDarajaConfig w = ([], Inr \<lparr>
          consumerKey = env_get (env w) ''DARAJA_CONSUMER_KEY'',
          consumerSecret = env_get (env w) ''DARAJA_CONSUMER_SECRET'',
          passkey = env_get (env w) ''DARAJA_PASSKEY'',
          paybill = Str (toString (env_get (env w) ''DARAJA_PAYBILL'')),
          oauthurl = env_get (env w) ''DARAJA_OAUTHURL'',
          stkurl = env_get (env w) ''DARAJA_STKURL'',
          callbackurl = env_get (env w) ''DARAJA_CALLBACKURL''\<rparr>))
   \<and> (\<not> (\<forall>k \<in> set [''DARAJA_CONSUMER_KEY'', ''DARAJA_CONSUMER_SECRET'', ''DARAJA_PASSKEY'',
        ''DARAJA_PAYBILL'', ''DARAJA_OAUTHURL'', ''DARAJA_STKURL'', ''DARAJA_CALLBACKURL''].
        env w k \<noteq> None \<and> env w k \<noteq> Some [])
      \<longrightarrow>
        (config_doc w = Inr (Some data) \<and> truthy data
          \<and> (\<forall>f \<in> set [''consumerKey'', ''consumerSecret'', ''passkey'', ''paybill'',
                ''oauthurl'', ''stkurl'', ''callbackurl'']. truthy (js_get data f))
         \<longrightarrow> getDarajaConfig w = ([ConfigRead], Inr \<lparr>
               consumerKey = js_get data ''consumerKey'',
               consumerSecret = js_get data ''consumerSecret'',
               passkey = js_get data ''passkey'',
               paybill = Str (toString (js_get data ''paybill'')),
               oauthurl = js_get data ''oauthurl'',
               stkurl = js_get data ''stkurl'',
               callbackurl = js_get data ''callbackurl''\<rparr>))
        \<and> (config_doc w = Inr None
            \<or> config_doc w = Inr (Some data)
              \<and> \<not> (truthy data
                \<and> (\<forall>f \<in> set [''consumerKey'', ''consumerSecret'', ''passkey'', ''paybill'',
                      ''oauthurl'', ''stkurl'', ''callbackurl'']. truthy (js_get data f)))
           \<longrightarrow> getDarajaConfig w = ([ConfigRead], Inl config_missing)))"
    unfolding getDarajaConfig_def loadDarajaConfigFromFirestore_def Let_def
    by (auto simp: t)
  from r c m show ?thesis by blast
qed

text \<open>The three outcomes, each in a world that takes it.\<close>

theorem getDarajaConfig_resolution_witness:
  "getDarajaConfig example_world = ([], Inr example_config)
   \<and> getDarajaConfig fallback_world = ([ConfigRead], Inr fallback_config)
   \<and> getDarajaConfig (example_world\<lparr>env := no_env\<rparr>) = ([ConfigRead], Inl config_missing)"
proof -
  have h1: "\<forall>k \<in> set [''DARAJA_CONSUMER_KEY'', ''DARAJA_CONSUMER_SECRET'', ''DARAJA_PASSKEY'',
        ''DARAJA_PAYBILL'', ''DARAJA_OAUTHURL'', ''DARAJA_STKURL'', ''DARAJA_CALLBACKURL''].
        env example_world k \<noteq> None \<and> env example_world k \<noteq> Some []"
    by code_simp
  have a0: "\<lparr>consumerKey = env_get (env example_world) ''DARAJA_CONSUMER_KEY'',
          consumerSecret = env_get (env example_world) ''DARAJA_CONSUMER_SECRET'',
          passkey = env_get (env example_world) ''DARAJA_PASSKEY'',
          paybill = Str (toString (env_get (env example_world) ''DARAJA_PAYBILL'')),
          oauthurl = env_get (env example_world) ''DARAJA_OAUTHURL'',
          stkurl = env_get (env example_world) ''DARAJA_STKURL'',
          callbackurl = env_get (env example_world) ''DARAJA_CALLBACKURL''\<rparr> = example_config"
    by code_simp
  have a: "getDarajaConfig example_world = ([], Inr example_config)"
    using getDarajaConfig_resolution [of example_world, THEN conjunct1, THEN mp, OF h1]
    unfolding a0 .
  have h2: "\<not> (\<forall>k \<in> set [''DARAJA_CONSUMER_KEY'', ''DARAJA_CONSUMER_SECRET'', ''DARAJA_PASSKEY'',
        ''DARAJA_PAYBILL'', ''DARAJA_OAUTHURL'', ''DARAJA_STKURL'', ''DARAJA_CALLBACKURL''].
        env fallback_world k \<noteq> None \<and> env fallback_world k \<noteq> Some [])"
    by code_simp
  have h3: "config_doc fallback_world = Inr (Some example_doc) \<and> truthy example_doc
          \<and> (\<forall>f \<in> set [''consumerKey'', ''consumerSecret'', ''passkey'', ''paybill'',
                ''oauthurl'', ''stkurl'', ''callbackurl'']. truthy (js_get example_doc f))"
    by code_simp
  have p: "toString (js_get example_doc ''paybill'') = ''174379''"
    by (simp add: example_doc_def show_int_def show_nat.simps digit_char_def)
  have b0: "\<lparr>consumerKey = js_get example_doc ''consumerKey'',
               consumerSecret = js_get example_doc ''consumerSecret'',
               passkey = js_get example_doc ''passkey'',
               paybill = Str (toString (js_get example_doc ''paybill'')),
               oauthurl = js_get example_doc ''oauthurl'',
               stkurl = js_get example_doc ''stkurl'',
               callbackurl = js_get example_doc ''callbackurl''\<rparr> = fallback_config"
    unfolding p by code_simp
  have b: "getDarajaConfig fallback_world = ([ConfigRead], Inr fallback_config)"
    using getDarajaConfig_resolution [of fallback_world example_doc, THEN conjunct2, THEN conjunct1,
        THEN mp, OF h2, THEN conjunct1, THEN mp, OF h3]
    unfolding b0 .
  have h4: "\<not> (\<forall>k \<in> set [''DARAJA_CONSUMER_KEY'', ''DARAJA_CONSUMER_SECRET'', ''DARAJA_PASSKEY'',
        ''DARAJA_PAYBILL'', ''DARAJA_OAUTHURL'', ''DARAJA_STKURL'', ''DARAJA_CALLBACKURL''].
        env (example_world\<lparr>env := no_env\<rparr>) k \<noteq> None
        \<and> env (example_world\<lparr>env := no_env\<rparr>) k \<noteq> Some [])"
    by code_simp
  have h5: "config_doc (example_world\<lparr>env := no_env\<rparr>) = Inr None
            \<or> config_doc (example_world\<lparr>env := no_env\<rparr>) = Inr (Some Null)
              \<and> \<not> (truthy Null
                \<and> (\<forall>f \<in> set [''consumerKey'', ''consumerSecret'', ''passkey'', ''paybill'',
                      ''oauthurl'', ''stkurl'', ''callbackurl'']. truthy (js_get Null f)))"
    by code_simp
  have c: "getDarajaConfig (example_world\<lparr>env := no_env\<rparr>) = ([ConfigRead], Inl config_missing)"
    using getDarajaConfig_resolution [of "example_world\<lparr>env := no_env\<rparr>" Null, THEN conjunct2,
        THEN conjunct1, THEN mp, OF h4, THEN conjunct2, THEN mp, OF h5] .
  from a b c show ?thesis by blast
qed

section \<open>Properties of the payment initiator\<close>

lemma reads_no_write:
  assumes "list_all is_read t"
  shows "PendingSet k d \<notin> set t" and "PushCall u b a \<notin> set t" and "PendingUpdate k d \<notin> set t"
  using assms by (auto simp: list_all_iff)

lemma to_number_cases:
  "to_number b neg m = Infinity \<or> to_number b neg m = MinusInfinity
   \<or> (\<exists>n. to_number b neg m = Num n)"
  by (cases b) (auto split: option.splits)

lemma parseInt_cases:
  "parseInt s = NaN \<or> parseInt s = Infinity \<or> parseInt s = MinusInfinity
   \<or> (\<exists>n. parseInt s = Num n)"
  using to_number_cases by (auto simp: parseInt_def Let_def)

lemma truthy_parseInt:
  "truthy (parseInt s) \<longleftrightarrow>
     parseInt s = Infinity \<or> parseInt s = MinusInfinity \<or> (\<exists>n. n \<noteq> 0 \<and> parseInt s = Num n)"
  using parseInt_cases [of s] by auto


lemma map_of_doc_set_eq: "map_of (doc_set k d xs) = (map_of xs)(k \<mapsto> d)"
  by (induction xs) auto

lemma map_of_doc_update:
  "map_of (doc_update k fs xs) k' =
     (if k' = k then map_option (merge_fields fs) (map_of xs k) else map_of xs k')"
  by (induction xs) auto

lemma map_of_filter_other:
  "f \<notin> S \<Longrightarrow> map_of (filter (\<lambda>(g, v). g \<notin> S) d) f = map_of d f"
  by (induction d) auto

lemma map_of_merge_fields:
  "map_of (merge_fields fs d) f = (case map_of fs f of Some v \<Rightarrow> Some v | None \<Rightarrow> map_of d f)"
proof (cases "map_of fs f")
  case None
  then have "f \<notin> set (map fst fs)" by (simp add: map_of_eq_None_iff)
  then have "map_of (filter (\<lambda>(f, v). f \<notin> set (map fst fs)) d) f = map_of d f"
    by (rule map_of_filter_other)
  with None show ?thesis by (simp add: merge_fields_def map_add_def)
next
  case (Some v)
  then show ?thesis by (simp add: merge_fields_def map_add_def)
qed


lemma stkPush_submit_events:
  "fst (snd (stkPush_submit w st cfg token body phone amount)) =
     PendingSet (auto_id w)
        (pending_record body phone amount (stkBody cfg body phone amount (utcTimestamp (clock w))))
     # (case pending_set_error w of
          Some err \<Rightarrow> []
        | None \<Rightarrow>
            PushCall (stkurl cfg) (stkBody cfg body phone amount (utcTimestamp (clock w)))
               (''Bearer '' @ toString token)
            # (case stk_post w (stkurl cfg) (stkBody cfg body phone amount (utcTimestamp (clock w)))
                      (''Bearer '' @ toString token) of
                 Inl err \<Rightarrow> []
               | Inr (status, data) \<Rightarrow> [PendingUpdate (auto_id w) (pending_update status data)]))"
  by (simp add: stkPush_submit_def Let_def split: option.splits sum.splits prod.splits)


lemma stkPush_try_cases:
  obtains (early) "fst (stkPush_try w st req) = st"
      and "list_all is_read (fst (snd (stkPush_try w st req)))"
    | (submit) cfg token phone t where
        "truthy (parseInt (toString (js_get (stkPush_body req) ''amount'')))"
      and "list_all is_read t"
      and "stkPush_try w st req =
             (case stkPush_submit w st cfg token (stkPush_body req) phone
                     (parseInt (toString (js_get (stkPush_body req) ''amount''))) of
                (st', t3, r) \<Rightarrow> (st', t @ t3, r))"
proof -
  let ?amount = "parseInt (toString (js_get (stkPush_body req) ''amount''))"
  let ?phoneRaw = "js_get (stkPush_body req) ''phone''"
  show thesis
  proof (cases "truthy ?phoneRaw \<and> truthy ?amount")
    case False
    then show thesis by (intro early) (auto simp: stkPush_try_def Let_def)
  next
    case g: True
    obtain t1 c where c: "getDarajaConfig w = (t1, c)" by (cases "getDarajaConfig w")
    have r1: "list_all is_read t1" using getDarajaConfig_reads [of w] c by simp
    show thesis
    proof (cases c)
      case (Inl err)
      with g c r1 show thesis by (intro early) (simp_all add: stkPush_try_def Let_def)
    next
      case (Inr cfg)
      obtain t2 k where k: "stkPush_token w cfg = (t2, k)" by (cases "stkPush_token w cfg")
      have r2: "list_all is_read t2" using stkPush_token_reads [of w cfg] k by simp
      show thesis
      proof (cases k)
        case (Inl err)
        with g c Inr k r1 r2 show thesis by (intro early) (simp_all add: stkPush_try_def Let_def)
      next
        case token: (Inr token)
        show thesis
        proof (cases "normalizePhoneForDaraja ?phoneRaw")
          case (Inl err)
          with g c Inr k token r1 r2 show thesis
            by (intro early) (simp_all add: stkPush_try_def Let_def)
        next
          case phone: (Inr phone)
          have e: "stkPush_try w st req =
               (case stkPush_submit w st cfg token (stkPush_body req) phone ?amount of
                  (st', t3, r) \<Rightarrow> (st', (t1 @ t2) @ t3, r))"
            using g c Inr k token phone by (simp add: stkPush_try_def Let_def)
          have r: "list_all is_read (t1 @ t2)" using r1 r2 by simp
          from g have "truthy ?amount" by simp
          from this r e show thesis by (rule submit)
        qed
      qed
    qed
  qed
qed




subsection \<open>Token acquisition\<close>

text \<open>
  C7. Let the configured OAuth URL be the text \<open>u\<close> and let the token call on \<open>u\<close> fail
  with \<open>err\<close>. When \<open>u\<close> contains the production host, the token block issues exactly two
  token calls, the second on \<open>u\<close> with the first occurrence of the production host replaced
  by the sandbox host, and its outcome is the outcome of the second call. When \<open>u\<close> does
  not contain the production host, the block issues the one call and throws \<open>err\<close>, and
  \<^verbatim>\<open>stkPush\<close> answers 502 with the message of \<open>err\<close>.
\<close>

theorem stkPush_token_sandbox_retry:
  assumes "oauthurl cfg = Str u"
    and "snd (getDarajaToken w (Str u) (consumerKey cfg) (consumerSecret cfg)) = Inl err"
  shows "(str_includes u ''api.safaricom.co.ke'' \<longrightarrow>
            stkPush_token w cfg =
              ([TokenCall (Str u) (basic_auth (consumerKey cfg) (consumerSecret cfg)),
                TokenCall (Str (replace u ''api.safaricom.co.ke'' ''sandbox.safaricom.co.ke''))
                  (basic_auth (consumerKey cfg) (consumerSecret cfg))],
               snd (getDarajaToken w (Str (replace u ''api.safaricom.co.ke'' ''sandbox.safaricom.co.ke''))
                      (consumerKey cfg) (consumerSecret cfg))))
       \<and> (\<not> str_includes u ''api.safaricom.co.ke'' \<longrightarrow>
            stkPush_token w cfg =
              ([TokenCall (Str u) (basic_auth (consumerKey cfg) (consumerSecret cfg))], Inl err))
       \<and> (\<not> str_includes u ''api.safaricom.co.ke'' \<and> req_method req \<noteq> ''OPTIONS''
            \<and> truthy (js_get (stkPush_body req) ''phone'')
            \<and> truthy (parseInt (toString (js_get (stkPush_body req) ''amount'')))
            \<and> getDarajaConfig w = (t0, Inr cfg) \<longrightarrow>
            stkPush w st req =
              (st, t0 @ [TokenCall (Str u) (basic_auth (consumerKey cfg) (consumerSecret cfg))],
               \<lparr>res_status = 502, res_body = Obj [
                  (''error'', Str ''stk_push_failed''),
                  (''details'', Str (details_of err))]\<rparr>))"
proof -
  have ne: "str_includes u ''api.safaricom.co.ke'' \<Longrightarrow> u \<noteq> []"
    by (cases u) simp_all
  have a: "str_includes u ''api.safaricom.co.ke'' \<longrightarrow>
            stkPush_token w cfg =
              ([TokenCall (Str u) (basic_auth (consumerKey cfg) (consumerSecret cfg)),
                TokenCall (Str (replace u ''api.safaricom.co.ke'' ''sandbox.safaricom.co.ke''))
                  (basic_auth (consumerKey cfg) (consumerSecret cfg))],
               snd (getDarajaToken w (Str (replace u ''api.safaricom.co.ke'' ''sandbox.safaricom.co.ke''))
                      (consumerKey cfg) (consumerSecret cfg)))"
    using assms ne
    by (simp add: stkPush_token_def case_prod_beta getDarajaToken_trace)
  have b: "\<not> str_includes u ''api.safaricom.co.ke'' \<longrightarrow>
            stkPush_token w cfg =
              ([TokenCall (Str u) (basic_auth (consumerKey cfg) (consumerSecret cfg))], Inl err)"
    using assms
    by (simp add: stkPush_token_def case_prod_beta getDarajaToken_trace)
  from b have c: "\<not> str_includes u ''api.safaricom.co.ke'' \<and> req_method req \<noteq> ''OPTIONS''
            \<and> truthy (js_get (stkPush_body req) ''phone'')
            \<and> truthy (parseInt (toString (js_get (stkPush_body req) ''amount'')))
            \<and> getDarajaConfig w = (t0, Inr cfg) \<longrightarrow>
            stkPush w st req =
              (st, t0 @ [TokenCall (Str u) (basic_auth (consumerKey cfg) (consumerSecret cfg))],
               \<lparr>res_status = 502, res_body = Obj [
                  (''error'', Str ''stk_push_failed''),
                  (''details'', Str (details_of err))]\<rparr>)"
    by (simp add: stkPush_def stkPush_try_def Let_def)
  from a b c show ?thesis by blast
qed


text \<open>A production URL that times out and a sandbox that answers; a URL of another host.\<close>

theorem stkPush_token_sandbox_retry_witness:
  "stkPush_token (example_world\<lparr>oauth_get := oauth_sandbox_only\<rparr>) example_config =
     ([TokenCall (Str ''https://api.safaricom.co.ke/oauth'') ''Basic Y2s6Y3M='',
       TokenCall (Str ''https://sandbox.safaricom.co.ke/oauth'') ''Basic Y2s6Y3M=''],
      Inr (Str ''tok''))
   \<and> stkPush_token (example_world\<lparr>oauth_get := oauth_timeout\<rparr>) fallback_config =
     ([TokenCall (Str ''https://gateway.test/oauth'') ''Basic Y2s6Y3M=''],
      Inl (Err ''AxiosError'' ''timeout of 15000ms exceeded''))
   \<and> stkPush (fallback_world\<lparr>oauth_get := oauth_timeout\<rparr>) empty_store
        (push_request ''0712345678'' (Str ''100'')) =
     (empty_store,
      [ConfigRead, TokenCall (Str ''https://gateway.test/oauth'') ''Basic Y2s6Y3M=''],
      \<lparr>res_status = 502, res_body = Obj [
         (''error'', Str ''stk_push_failed''),
         (''details'', Str ''timeout of 15000ms exceeded'')]\<rparr>)"
proof -
  let ?w1 = "example_world\<lparr>oauth_get := oauth_sandbox_only\<rparr>"
  let ?w2 = "example_world\<lparr>oauth_get := oauth_timeout\<rparr>"
  let ?w3 = "fallback_world\<lparr>oauth_get := oauth_timeout\<rparr>"
  let ?req = "push_request ''0712345678'' (Str ''100'')"
  let ?err = "Err ''AxiosError'' ''timeout of 15000ms exceeded''"
  have u1: "oauthurl example_config = Str ''https://api.safaricom.co.ke/oauth''"
    by (simp add: example_config_def)
  have f1: "snd (getDarajaToken ?w1 (Str ''https://api.safaricom.co.ke/oauth'')
              (consumerKey example_config) (consumerSecret example_config)) = Inl ?err"
    by code_simp
  have i1: "str_includes ''https://api.safaricom.co.ke/oauth'' ''api.safaricom.co.ke''"
    by code_simp
  have a1: "basic_auth (consumerKey example_config) (consumerSecret example_config) = ''Basic Y2s6Y3M=''"
    by code_simp
  have r1: "replace ''https://api.safaricom.co.ke/oauth'' ''api.safaricom.co.ke'' ''sandbox.safaricom.co.ke''
            = ''https://sandbox.safaricom.co.ke/oauth''"
    by code_simp
  have s1: "snd (getDarajaToken ?w1 (Str ''https://sandbox.safaricom.co.ke/oauth'')
              (consumerKey example_config) (consumerSecret example_config)) = Inr (Str ''tok'')"
    by code_simp
  have c1: "stkPush_token ?w1 example_config =
     ([TokenCall (Str ''https://api.safaricom.co.ke/oauth'') ''Basic Y2s6Y3M='',
       TokenCall (Str ''https://sandbox.safaricom.co.ke/oauth'') ''Basic Y2s6Y3M=''],
      Inr (Str ''tok''))"
    using stkPush_token_sandbox_retry [OF u1 f1, THEN conjunct1, THEN mp, OF i1]
    unfolding a1 r1 s1 .
  have u2: "oauthurl fallback_config = Str ''https://gateway.test/oauth''"
    by (simp add: fallback_config_def)
  have f2: "snd (getDarajaToken ?w2 (Str ''https://gateway.test/oauth'')
              (consumerKey fallback_config) (consumerSecret fallback_config)) = Inl ?err"
    by code_simp
  have f3: "snd (getDarajaToken ?w3 (Str ''https://gateway.test/oauth'')
              (consumerKey fallback_config) (consumerSecret fallback_config)) = Inl ?err"
    by code_simp
  have i2: "\<not> str_includes ''https://gateway.test/oauth'' ''api.safaricom.co.ke''"
    by code_simp
  have a2: "basic_auth (consumerKey fallback_config) (consumerSecret fallback_config) = ''Basic Y2s6Y3M=''"
    by code_simp
  have c2: "stkPush_token ?w2 fallback_config =
     ([TokenCall (Str ''https://gateway.test/oauth'') ''Basic Y2s6Y3M=''], Inl ?err)"
    using stkPush_token_sandbox_retry [OF u2 f2, THEN conjunct2, THEN conjunct1, THEN mp, OF i2]
    unfolding a2 .
  have g: "getDarajaConfig ?w3 = ([ConfigRead], Inr fallback_config)"
    by (simp add: getDarajaConfig_def loadDarajaConfigFromFirestore_def Let_def fallback_world_def
          example_world_def no_env_def env_get_def example_doc_def fallback_config_def
          show_int_def show_nat.simps digit_char_def)
  have h: "\<not> str_includes ''https://gateway.test/oauth'' ''api.safaricom.co.ke''
           \<and> req_method ?req \<noteq> ''OPTIONS''
           \<and> truthy (js_get (stkPush_body ?req) ''phone'')
           \<and> truthy (parseInt (toString (js_get (stkPush_body ?req) ''amount'')))"
    by code_simp
  have d: "details_of ?err = ''timeout of 15000ms exceeded''"
    by simp
  have c3: "stkPush ?w3 empty_store ?req =
     (empty_store,
      [ConfigRead, TokenCall (Str ''https://gateway.test/oauth'') ''Basic Y2s6Y3M=''],
      \<lparr>res_status = 502, res_body = Obj [
         (''error'', Str ''stk_push_failed''),
         (''details'', Str ''timeout of 15000ms exceeded'')]\<rparr>)"
    using stkPush_token_sandbox_retry [OF u2 f3, THEN conjunct2, THEN conjunct2, THEN mp,
        of ?req "[ConfigRead]" empty_store] h g
    unfolding a2 d by simp
  from c1 c2 c3 show ?thesis by blast
qed

subsection \<open>Input validation\<close>




subsection \<open>The upstream answer\<close>




subsection \<open>The persisted amount\<close>

text \<open>
  C4, as the code has it. The amount of every pending record that \<^verbatim>\<open>stkPush\<close> writes is
  the number that the text of the amount field parses to, and this number is truthy: a
  non-zero integer, which may be negative (and is a double, so the nearest one to the
  digits from \<open>2^53\<close> on), or an infinity, for digits beyond the doubles. So every pending
  record of the store after \<^verbatim>\<open>stkPush\<close> is a record of the store before it or has such
  an amount.
\<close>

theorem stkPush_pending_amount_nonzero:
  "(PendingSet k d \<in> set (fst (snd (stkPush w st req))) \<longrightarrow>
      map_of d ''amount'' = Some (parseInt (toString (js_get (stkPush_body req) ''amount'')))
      \<and> (parseInt (toString (js_get (stkPush_body req) ''amount'')) = Infinity
         \<or> parseInt (toString (js_get (stkPush_body req) ''amount'')) = MinusInfinity
         \<or> (\<exists>n. n \<noteq> 0
                \<and> parseInt (toString (js_get (stkPush_body req) ''amount'')) = Num n)))
   \<and> (map_of (payments_pending (fst (stkPush w st req))) k = Some d \<longrightarrow>
        map_of (payments_pending st) k = Some d
        \<or> map_of d ''amount'' = Some Infinity
        \<or> map_of d ''amount'' = Some MinusInfinity
        \<or> (\<exists>n. n \<noteq> 0 \<and> map_of d ''amount'' = Some (Num n)))"
proof (cases "req_method req = ''OPTIONS''")
  case True
  then show ?thesis by (simp add: stkPush_def)
next
  case False
  let ?amount = "parseInt (toString (js_get (stkPush_body req) ''amount''))"
  from False have tr: "fst (snd (stkPush w st req)) = fst (snd (stkPush_try w st req))"
    and stq: "fst (stkPush w st req) = fst (stkPush_try w st req)"
    by (auto simp: stkPush_def split: prod.splits sum.splits)
  have rec: "map_of (pending_record body phone amount rb) ''amount'' = Some amount"
    for body phone amount rb
    by (simp add: pending_record_def)
  have upd: "map_of (pending_update status data) ''amount'' = None" for status data
    by (simp add: pending_update_def)
  show ?thesis
  proof (cases w st req rule: stkPush_try_cases)
    case early
    then show ?thesis unfolding tr stq by (simp add: reads_no_write)
  next
    case (submit cfg token phone t)
    from submit(1)
    have n: "?amount = Infinity \<or> ?amount = MinusInfinity \<or> (\<exists>n. n \<noteq> 0 \<and> ?amount = Num n)"
      by (simp add: truthy_parseInt)
    have a: "PendingSet k d \<in> set (fst (snd (stkPush w st req))) \<longrightarrow>
      map_of d ''amount'' = Some ?amount"
      unfolding tr submit(3) using submit(2)
      by (auto simp: case_prod_beta reads_no_write stkPush_submit_events rec
               split: option.splits sum.splits)
    have b: "map_of (payments_pending (fst (stkPush w st req))) k = Some d \<longrightarrow>
        map_of (payments_pending st) k = Some d \<or> map_of d ''amount'' = Some ?amount"
      unfolding stq submit(3)
      by (auto simp: case_prod_beta stkPush_submit_def Let_def map_of_doc_update map_of_doc_set_eq
                     map_of_merge_fields rec upd
               split: option.splits sum.splits if_splits)
    from n show ?thesis
    proof (elim disjE exE conjE)
      assume "?amount = Infinity"
      with a b show ?thesis by auto
    next
      assume "?amount = MinusInfinity"
      with a b show ?thesis by auto
    next
      fix n assume "n \<noteq> 0" "?amount = Num n"
      with a b show ?thesis by auto
    qed
  qed
qed

text \<open>Scenario 1: the pending record with amount 100.\<close>

theorem stkPush_pending_amount_nonzero_witness:
  "PendingSet ''id1''
      (pending_record (stkPush_body (push_request ''0712345678'' (Str ''100''))) ''254712345678'' (Num 100)
         (stkBody example_config (stkPush_body (push_request ''0712345678'' (Str ''100'')))
            ''254712345678'' (Num 100) ''20240105070809''))
     \<in> set (fst (snd (stkPush example_world empty_store (push_request ''0712345678'' (Str ''100'')))))
   \<and> map_of
        (pending_record (stkPush_body (push_request ''0712345678'' (Str ''100''))) ''254712345678'' (Num 100)
           (stkBody example_config (stkPush_body (push_request ''0712345678'' (Str ''100'')))
              ''254712345678'' (Num 100) ''20240105070809''))
        ''amount'' = Some (Num 100)"
proof -
  let ?req = "push_request ''0712345678'' (Str ''100'')"
  let ?d = "pending_record (stkPush_body ?req) ''254712345678'' (Num 100)
         (stkBody example_config (stkPush_body ?req) ''254712345678'' (Num 100) ''20240105070809'')"
  have p: "PendingSet ''id1'' ?d \<in> set (fst (snd (stkPush example_world empty_store ?req)))"
    by code_simp
  have a: "parseInt (toString (js_get (stkPush_body ?req) ''amount'')) = Num 100"
    by code_simp
  from stkPush_pending_amount_nonzero [THEN conjunct1, THEN mp, OF p] a
  have "map_of ?d ''amount'' = Some (Num 100)" by auto
  with p show ?thesis by blast
qed

text \<open>
  C4 as stated fails: the amount \<open>-5\<close> passes the test of the handler, and the pending
  record is written and stored with the amount \<open>-5\<close>. (An amount of 310 digits or more
  is written as \<^verbatim>\<open>Infinity\<close>, which is no integer; the number \<open>10^21\<close> is written as 1.)
\<close>

theorem stkPush_negative_amount_counterexample:
  "PendingSet ''id1''
      (pending_record (stkPush_body (push_request ''0712345678'' (Str ''-5''))) ''254712345678'' (Num (- 5))
         (stkBody example_config (stkPush_body (push_request ''0712345678'' (Str ''-5'')))
            ''254712345678'' (Num (- 5)) ''20240105070809''))
     \<in> set (fst (snd (stkPush example_world empty_store (push_request ''0712345678'' (Str ''-5'')))))
   \<and> doc_where ''amount'' (Num (- 5))
        (payments_pending (fst (stkPush example_world empty_store (push_request ''0712345678'' (Str ''-5'')))))
      \<noteq> None
   \<and> res_status (snd (snd (stkPush example_world empty_store (push_request ''0712345678'' (Str ''-5''))))) = 200
   \<and> \<not> (0::int) < - 5"
  by code_simp

end
